theory Spec2Isabelle
  imports Complex_Main
begin

section \<open>Conventions of the embedding\<close>

text \<open>
  The Python sources under \<open>src/arb\<close> are embedded function by function.
  A Python \<open>float\<close> is read as a real number (rounding, infinities and NaN are left out),
  a Python \<open>int\<close> as an \<open>int\<close>, \<open>None\<close> as \<open>None\<close> of an option type, a raised exception
  as the left injection of a sum type. Network calls and the clock are inputs of the
  embedded functions: the values they returned are arguments.
\<close>

datatype py_error =
    ValueError
  | ZeroDivisionError
  | TypeError
  | AttributeError
  | DriverError
  | HTTPException nat

section \<open>Rolling signals (\<open>src/arb/signal/zscore.py\<close>)\<close>

text \<open>
  \<open>collections.deque(maxlen=m).append(x)\<close>: the element is added on the right and, when the
  deque then holds more than \<open>m\<close> elements, the leftmost one is dropped.
\<close>

definition deque_append :: "nat \<Rightarrow> 'a list \<Rightarrow> 'a \<Rightarrow> 'a list" where
  "deque_append maxlen d x =
     (let d' = d @ [x] in if length d' > maxlen then tl d' else d')"

record rolling_zscore =
  window :: int
  buf :: "real list"

text \<open>\<open>RollingZScore.__init__\<close>: a window of at most one is refused.\<close>

definition RollingZScore_init :: "int \<Rightarrow> py_error + rolling_zscore" where
  "RollingZScore_init w =
     (if w \<le> 1 then Inl ValueError else Inr \<lparr>window = w, buf = []\<rparr>)"

text \<open>
  \<open>RollingZScore.update\<close>: returns the new object state and the triple \<open>(z, mean, std)\<close>.
  The division by the length raises on an empty buffer.
\<close>

definition RollingZScore_update ::
  "rolling_zscore \<Rightarrow> real \<Rightarrow> py_error + (rolling_zscore \<times> real \<times> real \<times> real)" where
  "RollingZScore_update s v =
     (let b = deque_append (nat (window s)) (buf s) v;
          n = length b
      in if n = 0 then Inl ZeroDivisionError
         else
           let mean = sum_list b / real n;
               std = (if n > 1
                      then sqrt (max (sum_list (map (\<lambda>x. (x - mean)\<^sup>2) b) / real (n - 1)) 0)
                      else 0);
               z = (if std > 0 then (v - mean) / std else 0)
           in Inr (s\<lparr>buf := b\<rparr>, z, mean, std))"

record ema =
  ema_window :: int
  alpha :: real
  ema_value :: "real option"

definition EMA_init :: "int \<Rightarrow> py_error + ema" where
  "EMA_init w =
     (if w \<le> 0 then Inl ValueError
      else Inr \<lparr>ema_window = w, alpha = 2 / (real_of_int w + 1), ema_value = None\<rparr>)"

definition EMA_update :: "ema \<Rightarrow> real \<Rightarrow> ema \<times> real" where
  "EMA_update e x =
     (let v = (case ema_value e of
                 None \<Rightarrow> x
               | Some old \<Rightarrow> alpha e * x + (1 - alpha e) * old)
      in (e\<lparr>ema_value := Some v\<rparr>, v))"

section \<open>One tick of the poller (\<open>src/arb/runner_reminder.py\<close>, \<open>poll_pair_with_store\<close>)\<close>

text \<open>The \<open>if\<close>/\<open>elif\<close> chain that picks the action from the z-score.\<close>

definition decide_action :: "real \<Rightarrow> real \<Rightarrow> real \<Rightarrow> string" where
  "decide_action zscore enter_z exit_z =
     (if zscore \<ge> enter_z then ''enter_short_A_long_B''
      else if zscore \<le> - enter_z then ''enter_long_A_short_B''
      else if \<bar>zscore\<bar> \<le> exit_z then ''exit''
      else ''hold'')"

record tick_sample =
  ts_ms :: int
  price_a :: real
  price_b :: real
  spread :: real
  zscore :: real
  mean :: real
  std :: real
  ema_now :: real
  center_dev :: real
  age_a_ms :: int
  age_b_ms :: int
  skew_ms :: int
  latency_ms :: int
  stale :: int
  z_action :: string
  action :: string

record tick_config =
  cfg_enter_z :: real
  cfg_exit_z :: real
  stale_ms_th :: int
  skew_ms_th :: int

text \<open>
  Lines 98 to 119 of the tick: the two timed mid-price fetches have returned
  \<open>(pa, ts_a, dur_a)\<close> and \<open>(pb, ts_b, dur_b)\<close>. The field \<open>z_action\<close> is the value of the
  variable \<open>action\<close> after the \<open>if\<close>/\<open>elif\<close> chain, \<open>action\<close> its value after the stale
  override; \<open>stale\<close> is the integer handed to \<open>insert_spread\<close> and put in the payload.
\<close>

definition poll_tick ::
  "tick_config \<Rightarrow> rolling_zscore \<Rightarrow> ema \<Rightarrow> real \<Rightarrow> int \<Rightarrow> int \<Rightarrow> real \<Rightarrow> int \<Rightarrow> int
     \<Rightarrow> py_error + (rolling_zscore \<times> ema \<times> tick_sample)" where
  "poll_tick cfg z ema_calc pa ts_a dur_a pb ts_b dur_b =
     (let sp = pa - pb in
      case RollingZScore_update z sp of
        Inl e \<Rightarrow> Inl e
      | Inr (z', zs, mn, sd) \<Rightarrow>
          let (ema_calc', em) = EMA_update ema_calc sp;
              cd = (if sd > 1 / 10 ^ 12 then (sp - em) / sd else 0);
              ts = max ts_a ts_b;
              age_a = ts - ts_a;
              age_b = ts - ts_b;
              skew = \<bar>ts_a - ts_b\<bar>;
              latency = max dur_a dur_b;
              act = decide_action zs (cfg_enter_z cfg) (cfg_exit_z cfg);
              st = (if age_a > stale_ms_th cfg \<or> age_b > stale_ms_th cfg \<or> skew > skew_ms_th cfg
                    then 1 else 0);
              act' = (if st \<noteq> 0 then ''hold'' else act)
          in Inr (z', ema_calc',
                  \<lparr>ts_ms = ts, price_a = pa, price_b = pb, spread = sp, zscore = zs,
                   mean = mn, std = sd, ema_now = em, center_dev = cd,
                   age_a_ms = age_a, age_b_ms = age_b, skew_ms = skew, latency_ms = latency,
                   stale = st, z_action = act, action = act'\<rparr>))"

section \<open>AR(1) reversion estimate (\<open>src/arb/runner_reminder.py\<close>, \<open>estimate_reversion_times\<close>)\<close>

text \<open>
  Float division and \<open>math.log\<close>, with \<open>None\<close> for the exception they raise
  (\<open>ZeroDivisionError\<close> on a zero divisor, \<open>ValueError\<close> on a non-positive argument).
\<close>

definition py_div :: "real \<Rightarrow> real \<Rightarrow> real option" where
  "py_div a b = (if b = 0 then None else Some (a / b))"

definition py_log :: "real \<Rightarrow> real option" where
  "py_log a = (if a \<le> 0 then None else Some (ln a))"

text \<open>
  The body of the \<open>try\<close> block: \<open>None\<close> when an exception escapes it, otherwise the pair
  \<open>(half_life_s, t_exit_s)\<close> it returns. \<open>series[:-1]\<close> is \<open>butlast\<close>, \<open>series[1:]\<close> is \<open>tl\<close>.
\<close>

definition reversion_body ::
  "real list \<Rightarrow> real \<Rightarrow> real \<Rightarrow> int \<Rightarrow> (real option \<times> real option) option" where
  "reversion_body series current_z exit_z poll_ms =
     (let n = length series in
      if n < 10 then Some (None, None)
      else
        let x = butlast series; y = tl series in
        Option.bind (py_div (sum_list x) (real (length x))) (\<lambda>mean_x.
        Option.bind (py_div (sum_list y) (real (length y))) (\<lambda>mean_y.
          let num = sum_list (map (\<lambda>(xi, yi). (xi - mean_x) * (yi - mean_y)) (zip x y));
              den = sum_list (map (\<lambda>xi. (xi - mean_x)\<^sup>2) x)
          in if den = 0 then Some (None, None)
             else
               Option.bind (py_div num den) (\<lambda>phi.
                 if phi \<le> 0 \<or> phi \<ge> 9999 / 10000 then Some (None, None)
                 else
                   Option.bind (py_log 2) (\<lambda>log2.
                   Option.bind (py_log phi) (\<lambda>log_phi.
                   Option.bind (py_div log2 (- log_phi)) (\<lambda>half_life_samples.
                     let half_life_s = half_life_samples * (real_of_int poll_ms / 1000) in
                     if exit_z \<le> 0 \<or> \<bar>current_z\<bar> \<le> exit_z
                     then Some (Some half_life_s, Some 0)
                     else
                       Option.bind (py_div log2 half_life_s) (\<lambda>k.
                       Option.bind (py_div \<bar>current_z\<bar> exit_z) (\<lambda>ratio.
                       Option.bind (py_log ratio) (\<lambda>log_ratio.
                       Option.bind (py_div log_ratio k) (\<lambda>t_exit_s.
                         Some (Some half_life_s, Some t_exit_s))))))))))))"

text \<open>The function itself: \<open>except Exception: return None, None\<close>.\<close>

definition estimate_reversion_times ::
  "rolling_zscore \<Rightarrow> real \<Rightarrow> real \<Rightarrow> int \<Rightarrow> real option \<times> real option" where
  "estimate_reversion_times z current_z exit_z poll_ms =
     (case reversion_body (buf z) current_z exit_z poll_ms of
        None \<Rightarrow> (None, None)
      | Some r \<Rightarrow> r)"

text \<open>
  The quantities the specification names, written from its words: with \<open>xs = B[:-1]\<close> and
  \<open>ys = B[1:]\<close>, the denominator is the sum of squared deviations of \<open>xs\<close> from its mean
  and the slope is the sum of products of deviations over that denominator.
\<close>

definition spec_mean :: "real list \<Rightarrow> real" where
  "spec_mean xs = sum_list xs / real (length xs)"

definition spec_ols_den :: "real list \<Rightarrow> real" where
  "spec_ols_den B = (\<Sum>xi\<leftarrow>butlast B. (xi - spec_mean (butlast B))\<^sup>2)"

definition spec_ols_phi :: "real list \<Rightarrow> real" where
  "spec_ols_phi B =
     (\<Sum>(xi, yi)\<leftarrow>zip (butlast B) (tl B).
        (xi - spec_mean (butlast B)) * (yi - spec_mean (tl B))) / spec_ols_den B"

definition spec_half_life_s :: "real list \<Rightarrow> int \<Rightarrow> real" where
  "spec_half_life_s B poll_ms = (ln 2 / (- ln (spec_ols_phi B))) * (real_of_int poll_ms / 1000)"

definition spec_no_estimate :: "real list \<Rightarrow> bool" where
  "spec_no_estimate B \<longleftrightarrow>
     length B < 10 \<or> spec_ols_den B = 0 \<or> spec_ols_phi B \<le> 0 \<or> spec_ols_phi B \<ge> 9999 / 10000"

definition decay_series :: "real list" where
  "decay_series = [1, 1/2, 1/4, 1/8, 1/16, 1/32, 1/64, 1/128, 1/256, 1/512]"

section \<open>Funding advisory (\<open>src/arb/runner_reminder.py\<close>, lines 243 to 278)\<close>

text \<open>
  The two advice literals of the source are Chinese sentences; they are given here as the
  bytes of their UTF-8 encoding. The first reads "expected to converge before the next
  funding; consider avoiding the funding-rate effect", the second "expected to span the
  next funding; decide after assessing the net funding gain or cost".
\<close>

definition advice_before_funding :: string where
  "advice_before_funding = [
        CHR 0xE9, CHR 0xA2, CHR 0x84, CHR 0xE8, CHR 0xAE, CHR 0xA1, CHR 0xE5, CHR 0x9C,
        CHR 0xA8, CHR 0xE4, CHR 0xB8, CHR 0x8B, CHR 0xE4, CHR 0xB8, CHR 0x80, CHR 0xE6,
        CHR 0xAC, CHR 0xA1, CHR 0xE8, CHR 0xB5, CHR 0x84, CHR 0xE9, CHR 0x87, CHR 0x91,
        CHR 0xE8, CHR 0xB4, CHR 0xB9, CHR 0xE7, CHR 0x8E, CHR 0x87, CHR 0xE5, CHR 0x89,
        CHR 0x8D, CHR 0xE6, CHR 0x94, CHR 0xB6, CHR 0xE6, CHR 0x95, CHR 0x9B, CHR 0xEF,
        CHR 0xBC, CHR 0x8C, CHR 0xE5, CHR 0x8F, CHR 0xAF, CHR 0xE8, CHR 0x80, CHR 0x83,
        CHR 0xE8, CHR 0x99, CHR 0x91, CHR 0xE8, CHR 0xA7, CHR 0x84, CHR 0xE9, CHR 0x81,
        CHR 0xBF, CHR 0xE8, CHR 0xB5, CHR 0x84, CHR 0xE9, CHR 0x87, CHR 0x91, CHR 0xE8,
        CHR 0xB4, CHR 0xB9, CHR 0xE7, CHR 0x8E, CHR 0x87, CHR 0xE5, CHR 0xBD, CHR 0xB1,
        CHR 0xE5, CHR 0x93, CHR 0x8D]"

definition advice_spans_funding :: string where
  "advice_spans_funding = [
        CHR 0xE9, CHR 0xA2, CHR 0x84, CHR 0xE8, CHR 0xAE, CHR 0xA1, CHR 0xE8, CHR 0xB7,
        CHR 0xA8, CHR 0xE8, CHR 0xB6, CHR 0x8A, CHR 0xE4, CHR 0xB8, CHR 0x8B, CHR 0xE4,
        CHR 0xB8, CHR 0x80, CHR 0xE6, CHR 0xAC, CHR 0xA1, CHR 0xE8, CHR 0xB5, CHR 0x84,
        CHR 0xE9, CHR 0x87, CHR 0x91, CHR 0xE8, CHR 0xB4, CHR 0xB9, CHR 0xE7, CHR 0x8E,
        CHR 0x87, CHR 0xEF, CHR 0xBC, CHR 0x8C, CHR 0xE5, CHR 0x8F, CHR 0xAF, CHR 0xE8,
        CHR 0xAF, CHR 0x84, CHR 0xE4, CHR 0xBC, CHR 0xB0, CHR 0xE5, CHR 0x87, CHR 0x80,
        CHR 0xE8, CHR 0xB5, CHR 0x84, CHR 0xE9, CHR 0x87, CHR 0x91, CHR 0xE8, CHR 0xB4,
        CHR 0xB9, CHR 0xE7, CHR 0x8E, CHR 0x87, CHR 0xE6, CHR 0x94, CHR 0xB6, CHR 0xE7,
        CHR 0x9B, CHR 0x8A, CHR 0x2F, CHR 0xE6, CHR 0x88, CHR 0x90, CHR 0xE6, CHR 0x9C,
        CHR 0xAC, CHR 0xE5, CHR 0x90, CHR 0x8E, CHR 0xE5, CHR 0x86, CHR 0xB3, CHR 0xE5,
        CHR 0xAE, CHR 0x9A]"

text \<open>Python truth value of an optional number: \<open>None\<close> and zero are false.\<close>

definition py_truthy :: "real option \<Rightarrow> bool" where
  "py_truthy v = (case v of None \<Rightarrow> False | Some r \<Rightarrow> r \<noteq> 0)"

text \<open>\<open>int(x)\<close> on a float: truncation towards zero.\<close>

definition py_int_of_float :: "real \<Rightarrow> int" where
  "py_int_of_float r = (if r \<ge> 0 then \<lfloor>r\<rfloor> else \<lceil>r\<rceil>)"

text \<open>
  \<open>countdown_ms\<close>: the smaller of the truthy next-funding times minus the tick time, \<open>None\<close>
  when neither leg has one.
\<close>

definition funding_countdown :: "real option \<Rightarrow> real option \<Rightarrow> int \<Rightarrow> real option" where
  "funding_countdown next_a next_b now =
     (let nexts = map the (filter py_truthy [next_a, next_b])
      in if nexts = [] then None else Some (Min (set nexts) - real_of_int now))"

definition time_to_funding_s :: "real \<Rightarrow> int" where
  "time_to_funding_s countdown_ms = max 0 (py_int_of_float (countdown_ms / 1000))"

text \<open>\<open>net_rate\<close>: the funding rate of the short leg minus that of the long leg.\<close>

definition net_rate :: "string \<Rightarrow> real option \<Rightarrow> real option \<Rightarrow> real option" where
  "net_rate act fr_a_rate fr_b_rate =
     (case (fr_a_rate, fr_b_rate) of
        (Some fa, Some fb) \<Rightarrow>
          if act = ''enter_short_A_long_B'' then Some (fa - fb)
          else if act = ''enter_long_A_short_B'' then Some (fb - fa)
          else None
      | _ \<Rightarrow> None)"

record funding_hint =
  advice :: "string option"
  net_funding_cycle_usd :: "real option"
  expect_funding_next_usd :: "real option"

definition funding_advisory ::
  "string \<Rightarrow> real option \<Rightarrow> real option \<Rightarrow> real option \<Rightarrow> real option \<Rightarrow> real
     \<Rightarrow> funding_hint" where
  "funding_advisory act fr_a_rate fr_b_rate countdown_ms t_exit_s notional_usd =
     (case (countdown_ms, t_exit_s) of
        (Some c, Some t) \<Rightarrow>
          if py_truthy countdown_ms \<and> py_truthy t_exit_s
          then (case net_rate act fr_a_rate fr_b_rate of
                  Some nr \<Rightarrow>
                    let ttf = time_to_funding_s c;
                        adv = (if t < real_of_int ttf then advice_before_funding
                               else advice_spans_funding);
                        cyc = notional_usd * nr;
                        nxt = (if t \<ge> real_of_int ttf then cyc else 0)
                    in \<lparr>advice = Some adv, net_funding_cycle_usd = Some cyc,
                        expect_funding_next_usd = Some nxt\<rparr>
                | None \<Rightarrow>
                    \<lparr>advice = None, net_funding_cycle_usd = None,
                     expect_funding_next_usd = None\<rparr>)
          else \<lparr>advice = None, net_funding_cycle_usd = None, expect_funding_next_usd = None\<rparr>
      | _ \<Rightarrow> \<lparr>advice = None, net_funding_cycle_usd = None, expect_funding_next_usd = None\<rparr>)"

section \<open>Execution simulator (\<open>src/arb/panel/server.py\<close>, \<open>_avg_exec_price\<close> and \<open>api_simulate\<close>)\<close>

text \<open>
  The \<open>for\<close> loop of \<open>_avg_exec_price\<close> over the levels \<open>[price, qty]\<close>, with its three
  running variables; it returns them as they stand when the loop ends or breaks.
\<close>

fun avg_exec_loop :: "(real \<times> real) list \<Rightarrow> real \<Rightarrow> real \<Rightarrow> real \<Rightarrow> real \<times> real \<times> real" where
  "avg_exec_loop [] remaining total_quote filled = (remaining, total_quote, filled)"
| "avg_exec_loop ((price, qty) # rest) remaining total_quote filled =
     (if remaining \<le> 0 then (remaining, total_quote, filled)
      else
        let take = min remaining qty
        in avg_exec_loop rest (remaining - take) (total_quote + take * price) (filled + take))"

text \<open>\<open>_avg_exec_price\<close>: both sides walk the levels in the order given.\<close>

definition avg_exec_price :: "(real \<times> real) list \<Rightarrow> real \<Rightarrow> string \<Rightarrow> real \<times> real" where
  "avg_exec_price levels base_qty side =
     (let sq = (if side = ''buy'' then levels else levels) in
      case avg_exec_loop sq base_qty 0 0 of
        (remaining, total_quote, filled) \<Rightarrow>
          ((if filled > 0 then total_quote / filled else 0), filled))"

record book_levels =
  bids :: "(real \<times> real) list"
  asks :: "(real \<times> real) list"

record simulation =
  sim_mid_a :: real
  sim_mid_b :: real
  sim_avg_a :: real
  sim_avg_b :: real
  sim_slip_a_pct :: real
  sim_slip_b_pct :: real
  sim_slip_a_usd :: real
  sim_slip_b_usd :: real
  sim_fee_a_usd :: real
  sim_fee_b_usd :: real
  sim_total_cost_usd :: real
  sim_filled_base_a :: real
  sim_filled_base_b :: real

text \<open>
  \<open>api_simulate\<close> for a configured pair, after its awaits: \<open>mid_a\<close>, \<open>mid_b\<close> are the fetched
  mid prices, \<open>levels_a\<close>, \<open>levels_b\<close> the fetched books, \<open>taker_a\<close>, \<open>taker_b\<close> the taker
  fee found for each leg (\<open>None\<close> when the venue or the configuration has none, which
  \<open>or 0.0\<close> turns into 0). The steps keep the order of the source: the divisions by the
  mids come before the pattern check. An unconfigured pair is answered with 404 before
  any of this.
\<close>

definition api_simulate ::
  "bool \<Rightarrow> real \<Rightarrow> real \<Rightarrow> book_levels \<Rightarrow> book_levels \<Rightarrow> real option \<Rightarrow> real option
     \<Rightarrow> real \<Rightarrow> string \<Rightarrow> py_error + simulation" where
  "api_simulate configured mid_a mid_b levels_a levels_b taker_a taker_b notional_usd pattern =
     (if \<not> configured then Inl (HTTPException 404)
      else if mid_a = 0 \<or> mid_b = 0 then Inl ZeroDivisionError
      else
        let base_qty_a = notional_usd / mid_a;
            base_qty_b = notional_usd / mid_b
        in case (if pattern = ''enter_short_A_long_B'' then Some (''sell'', ''buy'')
                 else if pattern = ''enter_long_A_short_B'' then Some (''buy'', ''sell'')
                 else None) of
             None \<Rightarrow> Inl (HTTPException 400)
           | Some (side_a, side_b) \<Rightarrow>
               let (avg_a, filled_a) =
                     avg_exec_price (if side_a = ''buy'' then asks levels_a else bids levels_a)
                       base_qty_a side_a;
                   (avg_b, filled_b) =
                     avg_exec_price (if side_b = ''buy'' then asks levels_b else bids levels_b)
                       base_qty_b side_b;
                   slip_a_pct = (if avg_a > 0 then \<bar>avg_a - mid_a\<bar> / mid_a else 0);
                   slip_b_pct = (if avg_b > 0 then \<bar>avg_b - mid_b\<bar> / mid_b else 0);
                   slip_a_usd = slip_a_pct * notional_usd;
                   slip_b_usd = slip_b_pct * notional_usd;
                   tk_a = (case taker_a of None \<Rightarrow> 0 | Some f \<Rightarrow> f);
                   tk_b = (case taker_b of None \<Rightarrow> 0 | Some f \<Rightarrow> f);
                   fee_a_usd = tk_a * notional_usd;
                   fee_b_usd = tk_b * notional_usd
               in Inr \<lparr>sim_mid_a = mid_a, sim_mid_b = mid_b, sim_avg_a = avg_a,
                       sim_avg_b = avg_b, sim_slip_a_pct = slip_a_pct,
                       sim_slip_b_pct = slip_b_pct, sim_slip_a_usd = slip_a_usd,
                       sim_slip_b_usd = slip_b_usd, sim_fee_a_usd = fee_a_usd,
                       sim_fee_b_usd = fee_b_usd,
                       sim_total_cost_usd = slip_a_usd + slip_b_usd + fee_a_usd + fee_b_usd,
                       sim_filled_base_a = filled_a, sim_filled_base_b = filled_b\<rparr>)"

text \<open>
  The greedy fill in the words of the specification: level by level, while something
  remains, \<open>take = min(remaining, qty)\<close>; the quote total is the sum of \<open>take * price\<close> and
  the filled base the sum of the takes.
\<close>

fun spec_takes :: "(real \<times> real) list \<Rightarrow> real \<Rightarrow> real list" where
  "spec_takes [] remaining = []"
| "spec_takes ((price, qty) # rest) remaining =
     (if remaining \<le> 0 then []
      else min remaining qty # spec_takes rest (remaining - min remaining qty))"

definition spec_quote :: "(real \<times> real) list \<Rightarrow> real \<Rightarrow> real" where
  "spec_quote levels base_qty =
     (\<Sum>(take, price, qty)\<leftarrow>zip (spec_takes levels base_qty) levels. take * price)"

definition spec_filled :: "(real \<times> real) list \<Rightarrow> real \<Rightarrow> real" where
  "spec_filled levels base_qty = sum_list (spec_takes levels base_qty)"

text \<open>The side of the book each leg trades against: bids for a sell, asks for a buy.\<close>

definition leg_levels :: "string \<Rightarrow> bool \<Rightarrow> book_levels \<Rightarrow> (real \<times> real) list" where
  "leg_levels pattern is_leg_a levels =
     (if (pattern = ''enter_short_A_long_B'') = is_leg_a then bids levels else asks levels)"

section \<open>Bin statistics (\<open>src/arb/panel/server.py\<close>, \<open>_parse_edges\<close> and \<open>api_stats_bins\<close>)\<close>

text \<open>
  The columns of a stored row that the endpoint reads: the timestamp, the z-score and the
  funding countdown (both nullable in what \<open>get_spreads\<close> returns).
\<close>

record spread_row =
  row_ts_ms :: int
  row_z :: "real option"
  row_fr_countdown_ms :: "real option"

text \<open>
  \<open>_parse_edges\<close>. Its argument here is the list of numbers the comma-separated string
  parses to, or \<open>None\<close> when \<open>float\<close> raises on some piece; the \<open>except\<close> branch then
  answers with the default bins. An upper edge \<open>None\<close> is an open bin.
\<close>

definition parse_edges :: "real list option \<Rightarrow> (real \<times> real option) list" where
  "parse_edges edges =
     (case edges of
        None \<Rightarrow> [(3/2, Some 2), (2, Some (5/2)), (5/2, Some 3), (3, None)]
      | Some ps \<Rightarrow>
          let parts = sort ps
          in map (\<lambda>i. (parts ! i, if i + 1 < length parts then Some (parts ! (i + 1)) else None))
               [0..<length parts])"

text \<open>The inner \<open>while j < n\<close> loop: the first index from \<open>j\<close> on with \<open>|z| \<le> exit_z\<close>.\<close>

function scan_exit :: "real list \<Rightarrow> real \<Rightarrow> nat \<Rightarrow> nat option" where
  "scan_exit absz ez j =
     (if j < length absz
      then (if absz ! j \<le> ez then Some j else scan_exit absz ez (j + 1))
      else None)"
  by pat_completeness auto
termination
  by (relation "measure (\<lambda>(absz, ez, j). length absz - j)") auto

declare scan_exit.simps [simp del]

text \<open>
  The outer \<open>while i < n\<close> loop for one bin. After a crossing found at \<open>j\<close> the source sets
  \<open>i = j\<close>, which does not advance when \<open>j = i\<close>; the loop need not end, so it is a partial
  function and \<open>None\<close> stands for a walk that never returns.
\<close>

partial_function (option) walk_bin ::
  "real list \<Rightarrow> int list \<Rightarrow> real option list \<Rightarrow> real \<Rightarrow> real \<Rightarrow> real option
     \<Rightarrow> nat \<Rightarrow> real list \<Rightarrow> real list \<Rightarrow> (real list \<times> real list) option" where
  "walk_bin absz tms countdown ez lo hi i samples prob_before_funding =
     (if i < length absz
      then
        (if absz ! (i - 1) < lo \<and> absz ! i \<ge> lo
            \<and> (case hi of None \<Rightarrow> True | Some h \<Rightarrow> absz ! i < h)
         then
           (case scan_exit absz ez i of
              Some j \<Rightarrow>
                walk_bin absz tms countdown ez lo hi j
                  (samples @ [real_of_int (tms ! j - tms ! i) / 1000])
                  (case countdown ! i of
                     None \<Rightarrow> prob_before_funding
                   | Some c \<Rightarrow>
                       prob_before_funding
                         @ [if real_of_int (tms ! j - tms ! i) \<le> c then 1 else 0])
            | None \<Rightarrow> walk_bin absz tms countdown ez lo hi (i + 1) samples prob_before_funding)
         else walk_bin absz tms countdown ez lo hi (i + 1) samples prob_before_funding)
      else Some (samples, prob_before_funding))"

text \<open>Python's \<open>round\<close> on a float: to the nearest integer, a tie to the even one.\<close>

definition py_round :: "real \<Rightarrow> int" where
  "py_round r =
     (let f = \<lfloor>r\<rfloor>; d = r - real_of_int f
      in if d < 1/2 then f else if d > 1/2 then f + 1 else if even f then f else f + 1)"

text \<open>The local function \<open>pct\<close> over the sorted samples.\<close>

definition pct :: "real list \<Rightarrow> real \<Rightarrow> real option" where
  "pct samples p =
     (let cnt = int (length samples)
      in if cnt = 0 then None
         else
           let k = max 0 (min (cnt - 1) (py_round (p * real_of_int (cnt - 1))))
           in Some (samples ! nat k))"

record bin_stat =
  bin_lo :: real
  bin_hi :: "real option"
  samples_n :: nat
  p25_s :: "real option"
  median_s :: "real option"
  p75_s :: "real option"
  p90_s :: "real option"
  prob_exit_before_funding :: "real option"

text \<open>The body of the \<open>for (lo, hi) in bins\<close> loop, for one bin.\<close>

definition bin_entry ::
  "real list \<Rightarrow> int list \<Rightarrow> real option list \<Rightarrow> real \<Rightarrow> real \<times> real option
     \<Rightarrow> bin_stat option" where
  "bin_entry absz tms countdown ez b =
     (case walk_bin absz tms countdown ez (fst b) (snd b) 1 [] [] of
        None \<Rightarrow> None
      | Some (samples, prob_before_funding) \<Rightarrow>
          let sorted_samples = sort samples
          in Some \<lparr>bin_lo = fst b, bin_hi = snd b, samples_n = length sorted_samples,
                   p25_s = pct sorted_samples (1/4), median_s = pct sorted_samples (1/2),
                   p75_s = pct sorted_samples (3/4), p90_s = pct sorted_samples (9/10),
                   prob_exit_before_funding =
                     (if prob_before_funding = [] then None
                      else Some (sum_list prob_before_funding
                                 / real (length prob_before_funding)))\<rparr>)"

fun bins_loop ::
  "real list \<Rightarrow> int list \<Rightarrow> real option list \<Rightarrow> real \<Rightarrow> (real \<times> real option) list
     \<Rightarrow> bin_stat list option" where
  "bins_loop absz tms countdown ez [] = Some []"
| "bins_loop absz tms countdown ez (b # bs) =
     (case bin_entry absz tms countdown ez b of
        None \<Rightarrow> None
      | Some st \<Rightarrow>
          (case bins_loop absz tms countdown ez bs of
             None \<Rightarrow> None
           | Some sts \<Rightarrow> Some (st # sts)))"

text \<open>The rows of the last \<open>days\<close> days, ascending by time (\<open>list.sort\<close> is stable).\<close>

definition window_rows :: "spread_row list \<Rightarrow> int \<Rightarrow> int \<Rightarrow> spread_row list" where
  "window_rows rows now_ms days =
     sort_key row_ts_ms (filter (\<lambda>r. row_ts_ms r \<ge> now_ms - days * 86400000) rows)"

definition abs_z_series :: "spread_row list \<Rightarrow> real list" where
  "abs_z_series sq = map (\<lambda>r. \<bar>case row_z r of None \<Rightarrow> 0 | Some z \<Rightarrow> z\<bar>) sq"

text \<open>
  \<open>api_stats_bins\<close>: \<open>rows\<close> is what \<open>get_spreads\<close> returned, \<open>now_ms\<close> the clock reading.
  The outer \<open>None\<close> is a request that never returns.
\<close>

definition api_stats_bins ::
  "string \<Rightarrow> spread_row list \<Rightarrow> int \<Rightarrow> int \<Rightarrow> real \<Rightarrow> real list option
     \<Rightarrow> (py_error + bin_stat list) option" where
  "api_stats_bins pair rows now_ms days ez edges =
     (if pair = [] then Some (Inl (HTTPException 400))
      else
        let sq = window_rows rows now_ms days
        in case bins_loop (abs_z_series sq) (map row_ts_ms sq) (map row_fr_countdown_ms sq) ez
                  (parse_edges edges) of
             None \<Rightarrow> None
           | Some stats \<Rightarrow> Some (Inr stats))"

text \<open>
  The nearest-rank percentile in the words of the specification: the element at rank
  \<open>\<lceil>p * n\<rceil>\<close> (counted from 1) of the \<open>n\<close> ascending-sorted durations, null on an empty list.
\<close>

definition spec_nearest_rank :: "real list \<Rightarrow> real \<Rightarrow> real option" where
  "spec_nearest_rank durations p =
     (if durations = [] then None
      else Some (sort durations ! (nat \<lceil>p * real (length durations)\<rceil> - 1)))"

section \<open>Rate limiter (\<open>src/arb/rate_limiter.py\<close>)\<close>

record token_bucket =
  capacity :: int
  refill_rate :: real
  tokens :: real
  last_time :: real

text \<open>\<open>TokenBucket.__init__\<close>; \<open>now\<close> is the reading of \<open>time.monotonic()\<close>.\<close>

definition TokenBucket_init :: "int \<Rightarrow> real \<Rightarrow> real \<Rightarrow> token_bucket" where
  "TokenBucket_init cap rate now =
     \<lparr>capacity = cap, refill_rate = rate, tokens = real_of_int cap, last_time = now\<rparr>"

text \<open>
  The three statements that \<open>consume\<close> runs on entry and after every sleep: read the clock,
  move \<open>_last\<close>, add the tokens earned since, capped at the capacity.
\<close>

definition refill :: "real \<Rightarrow> token_bucket \<Rightarrow> token_bucket" where
  "refill now b =
     b\<lparr>last_time := now,
       tokens := min (real_of_int (capacity b)) (tokens b + (now - last_time b) * refill_rate b)\<rparr>"

text \<open>
  The \<open>while self._tokens < need\<close> loop. The scheduler is the function \<open>wake\<close>: \<open>wake t d\<close>
  is the clock reading when \<open>asyncio.sleep(d)\<close>, started at reading \<open>t\<close>, returns. The loop
  need not end, so it is a partial function; \<open>None\<close> stands for a caller kept waiting for
  ever.
\<close>

partial_function (option) wait_tokens ::
  "(real \<Rightarrow> real \<Rightarrow> real) \<Rightarrow> real \<Rightarrow> token_bucket \<Rightarrow> real \<Rightarrow> (token_bucket \<times> real) option" where
  "wait_tokens wake need b now =
     (if tokens b < need
      then wait_tokens wake need
             (refill (wake now (max (if refill_rate b > 0 then (need - tokens b) / refill_rate b
                                     else 1 / 20) (1 / 100))) b)
             (wake now (max (if refill_rate b > 0 then (need - tokens b) / refill_rate b
                             else 1 / 20) (1 / 100)))
      else Some (b, now))"

text \<open>\<open>TokenBucket.consume\<close>: the bucket after the deduction and the clock at return.\<close>

definition TokenBucket_consume ::
  "(real \<Rightarrow> real \<Rightarrow> real) \<Rightarrow> token_bucket \<Rightarrow> real \<Rightarrow> int \<Rightarrow> (token_bucket \<times> real) option" where
  "TokenBucket_consume wake b now weight =
     (case wait_tokens wake (real_of_int weight) (refill now b) now of
        None \<Rightarrow> None
      | Some (b', now') \<Rightarrow> Some (b'\<lparr>tokens := tokens b' - real_of_int weight\<rparr>, now'))"

text \<open>The limiter's dictionary of buckets, with the clock it runs against.\<close>

record limiter_state =
  buckets :: "string \<Rightarrow> token_bucket option"
  clock :: real

definition RateLimiter_key :: "string \<Rightarrow> string \<Rightarrow> string" where
  "RateLimiter_key exchange endpoint = exchange @ '':'' @ endpoint"

text \<open>
  The lookup of \<open>RateLimiter.allow\<close>: the key of the bucket object it ends up holding, that
  bucket, and the dictionary (changed only when \<open>setdefault\<close> had to insert).
\<close>

definition allow_lookup ::
  "limiter_state \<Rightarrow> string \<Rightarrow> string
     \<Rightarrow> string \<times> token_bucket \<times> (string \<Rightarrow> token_bucket option)" where
  "allow_lookup s exchange endpoint =
     (case buckets s (RateLimiter_key exchange endpoint) of
        Some b \<Rightarrow> (RateLimiter_key exchange endpoint, b, buckets s)
      | None \<Rightarrow>
          (case buckets s (RateLimiter_key exchange ''global'') of
             Some b \<Rightarrow> (RateLimiter_key exchange ''global'', b, buckets s)
           | None \<Rightarrow>
               (RateLimiter_key exchange ''global'',
                TokenBucket_init 1000 1000 (clock s),
                (buckets s)(RateLimiter_key exchange ''global''
                              \<mapsto> TokenBucket_init 1000 1000 (clock s)))))"

text \<open>\<open>RateLimiter.allow\<close>: the bucket object it holds is consumed in place.\<close>

definition RateLimiter_allow ::
  "(real \<Rightarrow> real \<Rightarrow> real) \<Rightarrow> limiter_state \<Rightarrow> string \<Rightarrow> string \<Rightarrow> int
     \<Rightarrow> limiter_state option" where
  "RateLimiter_allow wake s exchange endpoint weight =
     (case allow_lookup s exchange endpoint of
        (k, b, bs) \<Rightarrow>
          (case TokenBucket_consume wake b (clock s) weight of
             None \<Rightarrow> None
           | Some (b', now') \<Rightarrow> Some \<lparr>buckets = bs(k \<mapsto> b'), clock = now'\<rparr>))"

text \<open>The tokens a bucket holds at clock reading \<open>now\<close>, before any wait.\<close>

definition tokens_at :: "token_bucket \<Rightarrow> real \<Rightarrow> real" where
  "tokens_at b now =
     min (real_of_int (capacity b)) (tokens b + (now - last_time b) * refill_rate b)"

text \<open>
  The length of the sleep \<open>consume\<close> asks for when it enters the loop with a positive
  rate, \<open>max(to_wait, 0.01)\<close>; a scheduler whose sleeps last exactly as long as asked; and a
  limiter with one drained bucket, at clock 0.
\<close>

definition sleep_needed :: "token_bucket \<Rightarrow> real \<Rightarrow> int \<Rightarrow> real" where
  "sleep_needed b now weight =
     max ((real_of_int weight - tokens_at b now) / refill_rate b) (1 / 100)"

definition exact_sleep :: "real \<Rightarrow> real \<Rightarrow> real" where
  "exact_sleep t d = t + d"

definition drained_limiter :: limiter_state where
  "drained_limiter =
     \<lparr>buckets = [''aster:depth'' \<mapsto>
                   \<lparr>capacity = 4, refill_rate = 4, tokens = 0, last_time = 0\<rparr>],
      clock = 0\<rparr>"

section \<open>Ingestion and fan-out (\<open>src/arb/panel/server.py\<close>, \<open>src/arb/storage/sqlite.py\<close>)\<close>

text \<open>A JSON value, as FastAPI hands the request body over.\<close>

datatype json =
    JNull
  | JBool bool
  | JInt int
  | JFloat real
  | JStr string
  | JArr "json list"
  | JObj "(string \<times> json) list"

text \<open>
  What the endpoint cannot decide by itself: how \<open>int\<close> and \<open>float\<close> read a string
  (\<open>None\<close> when they raise \<open>ValueError\<close>), whether the database driver accepts an
  \<open>INSERT\<close> of a row and what the database is afterwards (\<open>None\<close> when it raises), and
  whether \<open>send_json\<close> to a socket succeeds.
\<close>

record 'db ingest_env =
  str_to_int :: "string \<Rightarrow> int option"
  str_to_float :: "string \<Rightarrow> real option"
  db_execute :: "'db \<Rightarrow> (string \<times> json) list \<Rightarrow> 'db option"
  send_json :: "nat \<Rightarrow> bool"

text \<open>The builtins \<open>int(v)\<close> and \<open>float(v)\<close> on a JSON value.\<close>

fun py_int :: "'db ingest_env \<Rightarrow> json \<Rightarrow> py_error + int" where
  "py_int env JNull = Inl TypeError"
| "py_int env (JBool b) = Inr (if b then 1 else 0)"
| "py_int env (JInt i) = Inr i"
| "py_int env (JFloat r) = Inr (py_int_of_float r)"
| "py_int env (JStr s) = (case str_to_int env s of None \<Rightarrow> Inl ValueError | Some i \<Rightarrow> Inr i)"
| "py_int env (JArr xs) = Inl TypeError"
| "py_int env (JObj kvs) = Inl TypeError"

fun py_float :: "'db ingest_env \<Rightarrow> json \<Rightarrow> py_error + real" where
  "py_float env JNull = Inl TypeError"
| "py_float env (JBool b) = Inr (if b then 1 else 0)"
| "py_float env (JInt i) = Inr (real_of_int i)"
| "py_float env (JFloat r) = Inr r"
| "py_float env (JStr s) = (case str_to_float env s of None \<Rightarrow> Inl ValueError | Some r \<Rightarrow> Inr r)"
| "py_float env (JArr xs) = Inl TypeError"
| "py_float env (JObj kvs) = Inl TypeError"

text \<open>The column list of \<open>insert_spread\<close>: eight positional columns, then the extras.\<close>

definition required_columns :: "string list" where
  "required_columns =
     [''pair'', ''ts_ms'', ''price_a'', ''price_b'', ''spread'', ''z'', ''mean'', ''std'']"

definition extra_columns :: "string list" where
  "extra_columns =
     [''ema'', ''center_dev'', ''ob_spread_a'', ''ob_spread_b'', ''ob_spread_pct_a'',
      ''ob_spread_pct_b'', ''vol_a'', ''vol_b'', ''depth_qty_a'', ''depth_qty_b'',
      ''depth_notional_a'', ''depth_notional_b'', ''maker_fee_a'', ''taker_fee_a'',
      ''maker_fee_b'', ''taker_fee_b'', ''fr_a'', ''fr_b'', ''fr_countdown_ms'',
      ''half_life_s'', ''t_exit_s'', ''advice'', ''net_funding_cycle_usd'',
      ''expect_funding_next_usd'', ''age_a_ms'', ''age_b_ms'', ''skew_ms'', ''latency_ms'',
      ''stale'']"

text \<open>\<open>d.get(k)\<close>: the value, or \<open>None\<close> (JSON null) for a missing key.\<close>

definition dict_get :: "(string \<Rightarrow> json option) \<Rightarrow> string \<Rightarrow> json" where
  "dict_get d k = (case d k of None \<Rightarrow> JNull | Some v \<Rightarrow> v)"

text \<open>
  \<open>insert_spread\<close>: the row is the column list zipped with the positional values followed
  by \<open>extras.get(column)\<close> for each extra column; the \<open>INSERT\<close> is the driver's.
\<close>

definition insert_spread ::
  "'db ingest_env \<Rightarrow> 'db \<Rightarrow> json \<Rightarrow> int \<Rightarrow> real \<Rightarrow> real \<Rightarrow> real \<Rightarrow> real \<Rightarrow> real \<Rightarrow> real
     \<Rightarrow> (string \<Rightarrow> json option) \<Rightarrow> 'db option" where
  "insert_spread env db pair ts pa pb sp zv mn sd extras =
     db_execute env db
       (zip (required_columns @ extra_columns)
          ([pair, JInt ts, JFloat pa, JFloat pb, JFloat sp, JFloat zv, JFloat mn, JFloat sd]
           @ map (dict_get extras) extra_columns))"

text \<open>
  \<open>WSManager\<close>: the subscribers of each pair (sockets are numbered; a set is listed in
  the order it is iterated), and the messages pushed so far.
\<close>

record ws_manager =
  active :: "string \<Rightarrow> nat list"
  pushed :: "(nat \<times> (string \<Rightarrow> json option)) list"

text \<open>\<open>WSManager.disconnect\<close> and the loop of \<open>WSManager.broadcast\<close>.\<close>

definition ws_disconnect :: "ws_manager \<Rightarrow> string \<Rightarrow> nat \<Rightarrow> ws_manager" where
  "ws_disconnect m pair ws = m\<lparr>active := (active m)(pair := removeAll ws (active m pair))\<rparr>"

fun broadcast_loop ::
  "'db ingest_env \<Rightarrow> string \<Rightarrow> (string \<Rightarrow> json option) \<Rightarrow> nat list \<Rightarrow> ws_manager \<Rightarrow> ws_manager" where
  "broadcast_loop env pair message [] m = m"
| "broadcast_loop env pair message (ws # conns) m =
     broadcast_loop env pair message conns
       (if send_json env ws then m\<lparr>pushed := pushed m @ [(ws, message)]\<rparr>
        else ws_disconnect m pair ws)"

text \<open>
  \<open>WSManager.broadcast\<close>. The dictionary \<open>active\<close> is keyed by the strings the sockets
  connected with; a \<open>pair\<close> that is a list or an object cannot be hashed and \<open>get\<close> raises,
  any other value that is not a string finds no subscribers.
\<close>

definition ws_broadcast ::
  "'db ingest_env \<Rightarrow> ws_manager \<Rightarrow> json \<Rightarrow> (string \<Rightarrow> json option) \<Rightarrow> py_error + ws_manager" where
  "ws_broadcast env m pair message =
     (case pair of
        JArr xs \<Rightarrow> Inl TypeError
      | JObj kvs \<Rightarrow> Inl TypeError
      | JStr p \<Rightarrow> Inr (broadcast_loop env p message (active m p) m)
      | _ \<Rightarrow> Inr m)"

text \<open>The first required key missing from the payload, in the order of the check.\<close>

fun first_missing :: "(string \<Rightarrow> json option) \<Rightarrow> string list \<Rightarrow> string option" where
  "first_missing payload [] = None"
| "first_missing payload (k # ks) =
     (if payload k = None then Some k else first_missing payload ks)"

text \<open>
  \<open>ingest_spread\<close>: the database and the manager after the request, and its outcome (the
  exception that left the handler, or the status of the body it returned). The keyword
  arguments of the \<open>insert_spread\<close> call are evaluated in the order written.
\<close>

definition ingest_spread ::
  "'db ingest_env \<Rightarrow> 'db \<Rightarrow> ws_manager \<Rightarrow> (string \<Rightarrow> json option)
     \<Rightarrow> 'db \<times> ws_manager \<times> (py_error + string)" where
  "ingest_spread env db m payload =
     (case first_missing payload required_columns of
        Some k \<Rightarrow> (db, m, Inl (HTTPException 400))
      | None \<Rightarrow>
          let pair = dict_get payload ''pair'' in
          case py_int env (dict_get payload ''ts_ms'') of Inl e \<Rightarrow> (db, m, Inl e) | Inr ts \<Rightarrow>
          case py_float env (dict_get payload ''price_a'') of Inl e \<Rightarrow> (db, m, Inl e) | Inr pa \<Rightarrow>
          case py_float env (dict_get payload ''price_b'') of Inl e \<Rightarrow> (db, m, Inl e) | Inr pb \<Rightarrow>
          case py_float env (dict_get payload ''spread'') of Inl e \<Rightarrow> (db, m, Inl e) | Inr sp \<Rightarrow>
          case py_float env (dict_get payload ''z'') of Inl e \<Rightarrow> (db, m, Inl e) | Inr zv \<Rightarrow>
          case py_float env (dict_get payload ''mean'') of Inl e \<Rightarrow> (db, m, Inl e) | Inr mn \<Rightarrow>
          case py_float env (dict_get payload ''std'') of Inl e \<Rightarrow> (db, m, Inl e) | Inr sd \<Rightarrow>
          case insert_spread env db pair ts pa pb sp zv mn sd
                 (\<lambda>c. if c \<in> set extra_columns then Some (dict_get payload c) else None) of
            None \<Rightarrow> (db, m, Inl DriverError)
          | Some db' \<Rightarrow>
              (case ws_broadcast env m pair payload of
                 Inl e \<Rightarrow> (db', m, Inl e)
               | Inr m' \<Rightarrow> (db', m', Inr ''ok'')))"

text \<open>
  The HTTP status FastAPI answers with: the code of an \<open>HTTPException\<close>, 500 for any other
  exception, 200 for a returned body.
\<close>

fun http_status :: "py_error + string \<Rightarrow> nat" where
  "http_status (Inl (HTTPException code)) = code"
| "http_status (Inl e) = 500"
| "http_status (Inr body) = 200"

text \<open>
  The row of a well-converted payload, and a small concrete setting for the examples: a
  database that is the list of its rows and accepts every row, sockets 1 and 2 subscribed
  to \<open>BTCUSDT\<close>, sends that succeed, and string parsers that refuse every string.
\<close>

definition ingest_row ::
  "(string \<Rightarrow> json option) \<Rightarrow> json \<Rightarrow> int \<Rightarrow> real \<Rightarrow> real \<Rightarrow> real \<Rightarrow> real \<Rightarrow> real \<Rightarrow> real
     \<Rightarrow> (string \<times> json) list" where
  "ingest_row payload pair ts pa pb sp zv mn sd =
     zip (required_columns @ extra_columns)
       ([pair, JInt ts, JFloat pa, JFloat pb, JFloat sp, JFloat zv, JFloat mn, JFloat sd]
        @ map (dict_get payload) extra_columns)"

definition list_env :: "((string \<times> json) list list) ingest_env" where
  "list_env =
     \<lparr>str_to_int = (\<lambda>s. None), str_to_float = (\<lambda>s. None),
      db_execute = (\<lambda>db row. Some (db @ [row])), send_json = (\<lambda>ws. True)\<rparr>"

definition two_subscribers :: ws_manager where
  "two_subscribers = \<lparr>active = (\<lambda>p. if p = ''BTCUSDT'' then [1, 2] else []), pushed = []\<rparr>"

definition no_subscribers :: ws_manager where
  "no_subscribers = \<lparr>active = (\<lambda>p. []), pushed = []\<rparr>"

definition sample_payload :: "json \<Rightarrow> string \<Rightarrow> json option" where
  "sample_payload ts =
     [''pair'' \<mapsto> JStr ''BTCUSDT'', ''ts_ms'' \<mapsto> ts, ''price_a'' \<mapsto> JFloat 100,
      ''price_b'' \<mapsto> JFloat (199/2), ''spread'' \<mapsto> JFloat (1/2), ''z'' \<mapsto> JInt 2,
      ''mean'' \<mapsto> JFloat (3/10), ''std'' \<mapsto> JFloat (1/10), ''stale'' \<mapsto> JInt 0]"

section \<open>Rate limiter configuration (\<open>src/arb/rate_limiter.py\<close>, \<open>RateLimiter.update\<close>)\<close>






text \<open>
  The entries a configuration names, each under the key \<open>_key\<close> builds for it, in the order
  the loops meet them; and the configurations the class docstring describes: a dictionary
  of dictionaries whose entries all build a bucket.
\<close>

definition exchange_entries :: "string \<times> json \<Rightarrow> (string \<times> json) list" where
  "exchange_entries ec =
     (case snd ec of
        JObj eps \<Rightarrow> map (\<lambda>(ep, conf). (RateLimiter_key (fst ec) ep, conf)) eps
      | _ \<Rightarrow> [])"


definition is_dict :: "json \<Rightarrow> bool" where
  "is_dict v = (case v of JObj kvs \<Rightarrow> True | _ \<Rightarrow> False)"


text \<open>Concrete values for the examples.\<close>

definition two_buckets :: limiter_state where
  "two_buckets =
     \<lparr>buckets = [''aster:global'' \<mapsto>
                   \<lparr>capacity = 20, refill_rate = 10, tokens = 3, last_time = 5\<rparr>,
                 ''lighter:global'' \<mapsto>
                   \<lparr>capacity = 20, refill_rate = 10, tokens = 7, last_time = 6\<rparr>],
      clock = 9\<rparr>"



section \<open>Properties of the rolling z-score\<close>

lemma deque_append_fifo:
  "0 < W \<Longrightarrow> length d \<le> W \<Longrightarrow>
   deque_append W d x = (if length d < W then d @ [x] else tl d @ [x])"
  by (cases d) (auto simp: deque_append_def Let_def)

lemma deque_append_length:
  "0 < W \<Longrightarrow> length d \<le> W \<Longrightarrow>
   length (deque_append W d x) = (if length d < W then length d + 1 else W)"
  by (cases d) (auto simp: deque_append_def Let_def)

lemma sum_squares_nonneg: "0 \<le> sum_list (map (\<lambda>x::real. (x - m)\<^sup>2) b)"
  by (rule sum_list_nonneg) auto

text \<open>
  C2. For a window \<open>W > 1\<close> (and a buffer within its capacity, as every buffer built by
  \<open>__init__\<close> and \<open>update\<close> is), \<open>update x\<close> does not raise; the new buffer is the old one with
  \<open>x\<close> appended and the oldest element evicted when the old one was full; with \<open>n\<close> its
  length, the returned mean is the sum divided by \<open>n\<close>, the returned std is the square root
  of the sum of squared deviations over \<open>n - 1\<close> when \<open>n > 1\<close> and 0 when \<open>n = 1\<close>, and the
  returned z is \<open>(x - mean) / std\<close> when \<open>std > 0\<close> and 0 otherwise.
\<close>

theorem RollingZScore_update_spec:
  assumes W: "window s > 1" and cap: "int (length (buf s)) \<le> window s"
  shows "\<exists>s' z m sd.
           RollingZScore_update s x = Inr (s', z, m, sd)
         \<and> window s' = window s
         \<and> buf s' = (if int (length (buf s)) < window s then buf s @ [x] else tl (buf s) @ [x])
         \<and> 1 \<le> length (buf s') \<and> int (length (buf s')) \<le> window s
         \<and> m = sum_list (buf s') / real (length (buf s'))
         \<and> sd = (if length (buf s') > 1
                  then sqrt (sum_list (map (\<lambda>xi. (xi - m)\<^sup>2) (buf s')) / real (length (buf s') - 1))
                  else 0)
         \<and> z = (if sd > 0 then (x - m) / sd else 0)"
proof -
  define Wn where "Wn = nat (window s)"
  define b where "b = deque_append Wn (buf s) x"
  have Wn: "0 < Wn" "length (buf s) \<le> Wn"
    using W cap by (simp_all add: Wn_def)
  have b_eq: "b = (if int (length (buf s)) < window s then buf s @ [x] else tl (buf s) @ [x])"
    using deque_append_fifo [OF Wn, of x] W by (auto simp: b_def Wn_def)
  have b_len: "length b = (if length (buf s) < Wn then length (buf s) + 1 else Wn)"
    unfolding b_def by (rule deque_append_length [OF Wn])
  have len1: "1 \<le> length b" using b_len Wn by (simp split: if_splits)
  have len2: "int (length b) \<le> window s"
    using b_len Wn W by (simp add: Wn_def split: if_splits)
  define m where "m = sum_list b / real (length b)"
  have var: "max (sum_list (map (\<lambda>x. (x - m)\<^sup>2) b) / real (length b - 1)) 0
             = sum_list (map (\<lambda>x. (x - m)\<^sup>2) b) / real (length b - 1)"
    by (intro max_absorb1 divide_nonneg_nonneg sum_squares_nonneg) simp
  define sd where "sd = (if length b > 1
      then sqrt (sum_list (map (\<lambda>xi. (xi - m)\<^sup>2) b) / real (length b - 1)) else 0)"
  define z where "z = (if sd > 0 then (x - m) / sd else 0)"
  have ne: "length b \<noteq> 0" using len1 by auto
  have run: "RollingZScore_update s x = Inr (s\<lparr>buf := b\<rparr>, z, m, sd)"
    unfolding RollingZScore_update_def Let_def b_def [symmetric] Wn_def [symmetric]
      m_def [symmetric] var sd_def [symmetric] z_def [symmetric]
    using ne by (simp only: if_False)
  show ?thesis
    using run b_eq len1 len2 by (simp add: m_def sd_def z_def)
qed


theorem RollingZScore_update_spec_witness:
  "window \<lparr>window = 3, buf = [1, 2, 3]\<rparr> > 1
   \<and> int (length (buf \<lparr>window = 3, buf = [1, 2, 3]\<rparr>)) \<le> window \<lparr>window = 3, buf = [1, 2, 3]\<rparr>
   \<and> (\<exists>s'. RollingZScore_update \<lparr>window = 3, buf = [1, 2, 3]\<rparr> 4 = Inr (s', 1, 3, 1)
          \<and> buf s' = [2, 3, 4])"
  using RollingZScore_update_spec [of "\<lparr>window = 3, buf = [1, 2, 3]\<rparr>" 4]
  by (auto simp: power2_eq_square)

section \<open>Properties of the tick\<close>

text \<open>The fields of the sample a tick produces, read off \<open>poll_tick\<close>.\<close>

lemma poll_tick_sample:
  assumes "poll_tick cfg z e pa ts_a dur_a pb ts_b dur_b = Inr (z', e', s)"
  obtains zs mn sd where "RollingZScore_update z (pa - pb) = Inr (z', zs, mn, sd)"
    and "zscore s = zs" and "mean s = mn" and "std s = sd"
    and "spread s = pa - pb" and "price_a s = pa" and "price_b s = pb"
    and "ts_ms s = max ts_a ts_b"
    and "age_a_ms s = max ts_a ts_b - ts_a"
    and "age_b_ms s = max ts_a ts_b - ts_b"
    and "skew_ms s = \<bar>ts_a - ts_b\<bar>"
    and "stale s = (if age_a_ms s > stale_ms_th cfg \<or> age_b_ms s > stale_ms_th cfg
                      \<or> skew_ms s > skew_ms_th cfg then 1 else 0)"
    and "z_action s = decide_action zs (cfg_enter_z cfg) (cfg_exit_z cfg)"
    and "action s = (if stale s \<noteq> 0 then ''hold'' else z_action s)"
proof (cases "RollingZScore_update z (pa - pb)")
  case (Inl err)
  with assms show ?thesis by (simp add: poll_tick_def)
next
  case (Inr r)
  obtain z1 zs mn sd where r: "r = (z1, zs, mn, sd)" by (cases r) auto
  obtain e1 em where em: "EMA_update e (pa - pb) = (e1, em)"
    by (cases "EMA_update e (pa - pb)") auto
  define st :: int where
    "st = (if max ts_a ts_b - ts_a > stale_ms_th cfg \<or> max ts_a ts_b - ts_b > stale_ms_th cfg
              \<or> \<bar>ts_a - ts_b\<bar> > skew_ms_th cfg then 1 else 0)"
  from assms Inr r em have "z1 = z'" and
    s: "s = \<lparr>ts_ms = max ts_a ts_b, price_a = pa, price_b = pb, spread = pa - pb, zscore = zs,
             mean = mn, std = sd, ema_now = em,
             center_dev = (if sd > 1 / 10 ^ 12 then (pa - pb - em) / sd else 0),
             age_a_ms = max ts_a ts_b - ts_a, age_b_ms = max ts_a ts_b - ts_b,
             skew_ms = \<bar>ts_a - ts_b\<bar>, latency_ms = max dur_a dur_b,
             stale = st, z_action = decide_action zs (cfg_enter_z cfg) (cfg_exit_z cfg),
             action = (if st \<noteq> 0 then ''hold''
                       else decide_action zs (cfg_enter_z cfg) (cfg_exit_z cfg))\<rparr>"
    unfolding poll_tick_def Let_def st_def by simp_all
  show ?thesis
    by (rule that [of zs mn sd]) (simp_all add: Inr r \<open>z1 = z'\<close> s, simp_all add: st_def)
qed

text \<open>Concrete values used by the scenarios below.\<close>

lemma sqrt_hundredth: "sqrt (1 / 100) = 1 / 10"
proof -
  have "sqrt ((1 / 10)\<^sup>2) = 1 / (10::real)" by (simp del: power_divide)
  then show ?thesis by (simp add: power2_eq_square)
qed

lemma seeded_update:
  "RollingZScore_update \<lparr>window = 60, buf = [1/5, 1/5, 3/10, 3/10, 3/10, 3/10]\<rparr> (1/2)
   = Inr (\<lparr>window = 60, buf = [1/5, 1/5, 3/10, 3/10, 3/10, 3/10, 1/2]\<rparr>, 2, 3/10, 1/10)"
  by (simp add: RollingZScore_update_def deque_append_def Let_def power2_eq_square sqrt_hundredth)

text \<open>
  C1. In every sample a tick emits, \<open>stale\<close> is 1 exactly when \<open>age_a_ms\<close> or \<open>age_b_ms\<close>
  exceeds the stale threshold or \<open>skew_ms\<close> exceeds the skew threshold (and is 0 otherwise),
  and a sample with \<open>stale = 1\<close> carries the action \<open>hold\<close>, whatever its z-score.
\<close>

theorem poll_tick_stale_hold:
  assumes "poll_tick cfg z e pa ts_a dur_a pb ts_b dur_b = Inr (z', e', s)"
  shows "(stale s = 1 \<longleftrightarrow>
            age_a_ms s > stale_ms_th cfg \<or> age_b_ms s > stale_ms_th cfg
          \<or> skew_ms s > skew_ms_th cfg)
       \<and> (stale s = 0 \<or> stale s = 1)
       \<and> (stale s = 1 \<longrightarrow> action s = ''hold'')"
  using assms by (rule poll_tick_sample) simp

theorem poll_tick_stale_hold_witness:
  "\<exists>z' e' s.
     poll_tick \<lparr>cfg_enter_z = 2, cfg_exit_z = 1/2, stale_ms_th = 3000, skew_ms_th = 500\<rparr>
       \<lparr>window = 60, buf = [1/5, 1/5, 3/10, 3/10, 3/10, 3/10]\<rparr>
       \<lparr>ema_window = 30, alpha = 2/31, ema_value = None\<rparr> 100 1000 40 (199/2) 5000 35
       = Inr (z', e', s)
   \<and> zscore s = 2 \<and> age_a_ms s = 4000 \<and> age_b_ms s = 0 \<and> skew_ms s = 4000
   \<and> stale s = 1 \<and> action s = ''hold''"
proof -
  have "\<exists>z' e' s.
     poll_tick \<lparr>cfg_enter_z = 2, cfg_exit_z = 1/2, stale_ms_th = 3000, skew_ms_th = 500\<rparr>
       \<lparr>window = 60, buf = [1/5, 1/5, 3/10, 3/10, 3/10, 3/10]\<rparr>
       \<lparr>ema_window = 30, alpha = 2/31, ema_value = None\<rparr> 100 1000 40 (199/2) 5000 35
       = Inr (z', e', s)
   \<and> zscore s = 2 \<and> age_a_ms s = 4000 \<and> age_b_ms s = 0 \<and> skew_ms s = 4000"
    by (simp add: poll_tick_def seeded_update EMA_update_def Let_def)
  then obtain z' e' s where
    run: "poll_tick \<lparr>cfg_enter_z = 2, cfg_exit_z = 1/2, stale_ms_th = 3000, skew_ms_th = 500\<rparr>
       \<lparr>window = 60, buf = [1/5, 1/5, 3/10, 3/10, 3/10, 3/10]\<rparr>
       \<lparr>ema_window = 30, alpha = 2/31, ema_value = None\<rparr> 100 1000 40 (199/2) 5000 35
       = Inr (z', e', s)"
    and vals: "zscore s = 2" "age_a_ms s = 4000" "age_b_ms s = 0" "skew_ms s = 4000"
    by blast
  from poll_tick_stale_hold [OF run] vals have "stale s = 1 \<and> action s = ''hold''"
    by simp
  with run vals show ?thesis by blast
qed

text \<open>
  C6. The action a tick holds before the stale override (\<open>z_action\<close>) follows the precedence
  of the chain: \<open>enter_short_A_long_B\<close> when \<open>z \<ge> enter_z\<close>; otherwise \<open>enter_long_A_short_B\<close>
  when \<open>z \<le> - enter_z\<close>; otherwise \<open>exit\<close> when \<open>|z| \<le> exit_z\<close>; otherwise \<open>hold\<close>; a tick that
  is not stale emits that action. The tick with prices 100.0 and 99.5 on a window seeded so
  that mean is 0.3 and std is 0.1, with \<open>enter_z = 2.0\<close> and \<open>exit_z = 0.5\<close>, has \<open>z = 2.0\<close>,
  \<open>stale = 0\<close> and the action \<open>enter_short_A_long_B\<close>.
\<close>

theorem poll_tick_action_precedence:
  "(\<forall>cfg z e pa ts_a dur_a pb ts_b dur_b z' e' s.
      poll_tick cfg z e pa ts_a dur_a pb ts_b dur_b = Inr (z', e', s) \<longrightarrow>
        (zscore s \<ge> cfg_enter_z cfg \<longrightarrow> z_action s = ''enter_short_A_long_B'')
      \<and> (zscore s < cfg_enter_z cfg \<and> zscore s \<le> - cfg_enter_z cfg
           \<longrightarrow> z_action s = ''enter_long_A_short_B'')
      \<and> (zscore s < cfg_enter_z cfg \<and> zscore s > - cfg_enter_z cfg \<and> \<bar>zscore s\<bar> \<le> cfg_exit_z cfg
           \<longrightarrow> z_action s = ''exit'')
      \<and> (zscore s < cfg_enter_z cfg \<and> zscore s > - cfg_enter_z cfg \<and> \<bar>zscore s\<bar> > cfg_exit_z cfg
           \<longrightarrow> z_action s = ''hold'')
      \<and> (stale s = 0 \<longrightarrow> action s = z_action s))
   \<and> (\<exists>z' e' s.
        poll_tick \<lparr>cfg_enter_z = 2, cfg_exit_z = 1/2, stale_ms_th = 3000, skew_ms_th = 500\<rparr>
          \<lparr>window = 60, buf = [1/5, 1/5, 3/10, 3/10, 3/10, 3/10]\<rparr>
          \<lparr>ema_window = 30, alpha = 2/31, ema_value = None\<rparr> 100 1000 40 (995/10) 1010 35
          = Inr (z', e', s)
      \<and> price_a s = 100 \<and> price_b s = 995/10 \<and> mean s = 3/10 \<and> std s = 1/10
      \<and> zscore s = 2 \<and> stale s = 0 \<and> z_action s = ''enter_short_A_long_B''
      \<and> action s = ''enter_short_A_long_B'')"
proof (intro conjI allI impI)
  fix cfg z e pa ts_a dur_a pb ts_b dur_b z' e' s
  assume run: "poll_tick cfg z e pa ts_a dur_a pb ts_b dur_b = Inr (z', e', s)"
  from run have za: "z_action s = decide_action (zscore s) (cfg_enter_z cfg) (cfg_exit_z cfg)"
    by (rule poll_tick_sample) simp
  from run have ac: "action s = (if stale s \<noteq> 0 then ''hold'' else z_action s)"
    by (rule poll_tick_sample) simp
  show "z_action s = ''enter_short_A_long_B''" if "zscore s \<ge> cfg_enter_z cfg"
    using that za by (simp add: decide_action_def)
  show "z_action s = ''enter_long_A_short_B''"
    if "zscore s < cfg_enter_z cfg \<and> zscore s \<le> - cfg_enter_z cfg"
    using that za by (simp add: decide_action_def)
  show "z_action s = ''exit''"
    if "zscore s < cfg_enter_z cfg \<and> zscore s > - cfg_enter_z cfg \<and> \<bar>zscore s\<bar> \<le> cfg_exit_z cfg"
    using that za by (simp add: decide_action_def)
  show "z_action s = ''hold''"
    if "zscore s < cfg_enter_z cfg \<and> zscore s > - cfg_enter_z cfg \<and> \<bar>zscore s\<bar> > cfg_exit_z cfg"
    using that za by (simp add: decide_action_def)
  show "action s = z_action s" if "stale s = 0"
    using that ac by simp
next
  show "\<exists>z' e' s.
        poll_tick \<lparr>cfg_enter_z = 2, cfg_exit_z = 1/2, stale_ms_th = 3000, skew_ms_th = 500\<rparr>
          \<lparr>window = 60, buf = [1/5, 1/5, 3/10, 3/10, 3/10, 3/10]\<rparr>
          \<lparr>ema_window = 30, alpha = 2/31, ema_value = None\<rparr> 100 1000 40 (995/10) 1010 35
          = Inr (z', e', s)
      \<and> price_a s = 100 \<and> price_b s = 995/10 \<and> mean s = 3/10 \<and> std s = 1/10
      \<and> zscore s = 2 \<and> stale s = 0 \<and> z_action s = ''enter_short_A_long_B''
      \<and> action s = ''enter_short_A_long_B''"
    by (simp add: poll_tick_def seeded_update EMA_update_def decide_action_def Let_def)
qed

theorem poll_tick_action_precedence_witness:
  "\<exists>z' e' s.
     poll_tick \<lparr>cfg_enter_z = 2, cfg_exit_z = 1/2, stale_ms_th = 3000, skew_ms_th = 500\<rparr>
       \<lparr>window = 60, buf = [1/5, 1/5, 3/10, 3/10, 3/10, 3/10]\<rparr>
       \<lparr>ema_window = 30, alpha = 2/31, ema_value = None\<rparr> 100 1000 40 (995/10) 1010 35
       = Inr (z', e', s)
   \<and> zscore s \<ge> cfg_enter_z \<lparr>cfg_enter_z = 2, cfg_exit_z = 1/2, stale_ms_th = 3000, skew_ms_th = 500\<rparr>
   \<and> stale s = 0
   \<and> z_action s = ''enter_short_A_long_B'' \<and> action s = z_action s"
proof -
  from conjunct2 [OF poll_tick_action_precedence] obtain z' e' s where
    run: "poll_tick \<lparr>cfg_enter_z = 2, cfg_exit_z = 1/2, stale_ms_th = 3000, skew_ms_th = 500\<rparr>
       \<lparr>window = 60, buf = [1/5, 1/5, 3/10, 3/10, 3/10, 3/10]\<rparr>
       \<lparr>ema_window = 30, alpha = 2/31, ema_value = None\<rparr> 100 1000 40 (995/10) 1010 35
       = Inr (z', e', s)"
    and vals: "zscore s = 2" "stale s = 0"
    by blast
  from conjunct1 [OF poll_tick_action_precedence, rule_format, OF run] vals
  have "z_action s = ''enter_short_A_long_B'' \<and> action s = z_action s"
    by simp
  with run vals show ?thesis by force
qed

section \<open>Properties of the reversion estimate\<close>

lemma reversion_body_none:
  assumes "spec_no_estimate B"
  shows "reversion_body B cz ez pm = Some (None, None)"
proof (cases "length B < 10")
  case True
  then show ?thesis by (simp add: reversion_body_def)
next
  case False
  then have len: "length (butlast B) \<noteq> 0" "length (tl B) \<noteq> 0" by simp_all
  from assms False have "spec_ols_den B = 0 \<or> spec_ols_phi B \<le> 0 \<or> spec_ols_phi B \<ge> 9999 / 10000"
    by (simp add: spec_no_estimate_def)
  then show ?thesis
    using False len
    unfolding reversion_body_def Let_def py_div_def spec_ols_den_def spec_ols_phi_def spec_mean_def
    by (auto simp del: length_butlast length_tl)
qed

lemma reversion_body_estimate:
  assumes "\<not> spec_no_estimate B"
  shows "reversion_body B cz ez pm =
           (if ez \<le> 0 \<or> \<bar>cz\<bar> \<le> ez then Some (Some (spec_half_life_s B pm), Some 0)
            else if pm = 0 then None
            else Some (Some (spec_half_life_s B pm),
                       Some (ln (\<bar>cz\<bar> / ez) * spec_half_life_s B pm / ln 2)))"
proof -
  from assms have n: "\<not> length B < 10" and den: "spec_ols_den B \<noteq> 0"
    and phi: "0 < spec_ols_phi B" "spec_ols_phi B < 9999 / 10000"
    by (auto simp: spec_no_estimate_def)
  from n have len: "real (length (butlast B)) \<noteq> 0" "real (length (tl B)) \<noteq> 0" by simp_all
  have lphi: "ln (spec_ols_phi B) < 0" using phi by simp
  define hs where "hs = ln 2 / (- ln (spec_ols_phi B))"
  have "0 < ln (2::real)" by simp
  then have hs: "0 < hs" using lphi unfolding hs_def by (intro divide_pos_pos) simp_all
  have hl: "spec_half_life_s B pm = hs * (real_of_int pm / 1000)"
    by (simp add: spec_half_life_s_def hs_def)
  have hl0: "spec_half_life_s B pm = 0 \<longleftrightarrow> pm = 0" using hs by (simp add: hl)
  have body: "reversion_body B cz ez pm =
      (if ez \<le> 0 \<or> \<bar>cz\<bar> \<le> ez then Some (Some (spec_half_life_s B pm), Some 0)
       else Option.bind (py_div (ln 2) (spec_half_life_s B pm)) (\<lambda>k.
            Option.bind (py_div \<bar>cz\<bar> ez) (\<lambda>ratio.
            Option.bind (py_log ratio) (\<lambda>log_ratio.
            Option.bind (py_div log_ratio k) (\<lambda>t. Some (Some (spec_half_life_s B pm), Some t))))))"
    using n len den phi lphi
    unfolding reversion_body_def Let_def
    by (simp add: py_div_def py_log_def spec_ols_den_def [symmetric] spec_mean_def [symmetric]
        spec_ols_phi_def [symmetric] hl hs_def del: length_butlast length_tl)
  show ?thesis
  proof (cases "ez \<le> 0 \<or> \<bar>cz\<bar> \<le> ez")
    case True
    then show ?thesis by (simp add: body)
  next
    case False
    then have ez: "0 < ez" "ez < \<bar>cz\<bar>" by auto
    then have "0 < \<bar>cz\<bar> / ez" by (intro divide_pos_pos) simp_all
    then have r: "\<not> \<bar>cz\<bar> / ez \<le> 0" by simp
    show ?thesis
    proof (cases "pm = 0")
      case True
      then have h0: "spec_half_life_s B pm = 0" using hl0 by blast
      have "reversion_body B cz ez pm = None"
        using False by (simp add: body py_div_def h0)
      with False True show ?thesis by simp
    next
      case pm: False
      with False ez show ?thesis
        by (simp add: body py_div_def py_log_def hl0 r)
    qed
  qed
qed


lemma decay_series_ols:
  "length decay_series = 10" "spec_ols_den decay_series \<noteq> 0" "spec_ols_phi decay_series = 1 / 2"
  by (simp_all add: decay_series_def spec_ols_den_def spec_ols_phi_def spec_mean_def
      power2_eq_square)

lemma decay_series_estimable: "\<not> spec_no_estimate decay_series"
  by (simp add: spec_no_estimate_def decay_series_ols)

lemma short_series_no_estimate: "spec_no_estimate [1, 2, 3]"
  by (simp add: spec_no_estimate_def)

lemma ln_half: "ln (1 / 2 :: real) = - ln 2"
  by (simp add: ln_div)

lemma ln_four: "ln (4 :: real) = 2 * ln 2"
proof -
  have "ln (4 :: real) = ln (2 ^ 2)" by simp
  also have "\<dots> = 2 * ln 2" by (simp only: ln_realpow)
  finally show ?thesis .
qed

lemma decay_half_life: "spec_half_life_s decay_series pm = real_of_int pm / 1000"
  by (simp add: spec_half_life_s_def decay_series_ols ln_half)

text \<open>
  C3. For a polling period \<open>poll_ms \<noteq> 0\<close> (the tick passes the configured period, 1000 by
  default), \<open>estimate_reversion_times\<close> returns \<open>(None, None)\<close> whenever the buffer has
  fewer than 10 points, the OLS denominator is 0, or the slope \<open>\<phi>\<close> is at most 0 or at
  least 0.9999. Otherwise it returns \<open>half_life_s = (ln 2 / (- ln \<phi>)) * (poll_ms / 1000)\<close>
  together with \<open>t_exit_s\<close>, which is 0 when \<open>exit_z \<le> 0\<close> or \<open>|z| \<le> exit_z\<close> and
  \<open>ln (|z| / exit_z) * half_life_s / ln 2\<close> when neither holds.
\<close>

theorem estimate_reversion_times_spec:
  assumes "pm \<noteq> 0"
  shows "(spec_no_estimate (buf z) \<longrightarrow> estimate_reversion_times z cz ez pm = (None, None))
   \<and> (\<not> spec_no_estimate (buf z) \<longrightarrow>
        estimate_reversion_times z cz ez pm =
          (Some (spec_half_life_s (buf z) pm),
           Some (if ez \<le> 0 \<or> \<bar>cz\<bar> \<le> ez then 0
                 else ln (\<bar>cz\<bar> / ez) * spec_half_life_s (buf z) pm / ln 2)))"
proof (cases "spec_no_estimate (buf z)")
  case True
  then show ?thesis
    by (simp add: estimate_reversion_times_def reversion_body_none)
next
  case False
  with assms show ?thesis
    by (simp add: estimate_reversion_times_def reversion_body_estimate)
qed

theorem estimate_reversion_times_spec_witness:
  "(1000 :: int) \<noteq> 0
   \<and> \<not> spec_no_estimate (buf \<lparr>window = 60, buf = decay_series\<rparr>)
   \<and> \<not> ((1/2 :: real) \<le> 0 \<or> \<bar>2 :: real\<bar> \<le> 1/2)
   \<and> estimate_reversion_times \<lparr>window = 60, buf = decay_series\<rparr> 2 (1/2) 1000 = (Some 1, Some 2)
   \<and> estimate_reversion_times \<lparr>window = 60, buf = decay_series\<rparr> (1/4) (1/2) 1000
        = (Some 1, Some 0)
   \<and> spec_no_estimate (buf \<lparr>window = 60, buf = [1, 2, 3]\<rparr>)
   \<and> estimate_reversion_times \<lparr>window = 60, buf = [1, 2, 3]\<rparr> 2 (1/2) 1000 = (None, None)"
  using estimate_reversion_times_spec [of 1000 "\<lparr>window = 60, buf = decay_series\<rparr>" 2 "1/2"]
    estimate_reversion_times_spec [of 1000 "\<lparr>window = 60, buf = decay_series\<rparr>" "1/4" "1/2"]
    estimate_reversion_times_spec [of 1000 "\<lparr>window = 60, buf = [1, 2, 3]\<rparr>" 2 "1/2"]
  by (simp add: decay_series_estimable decay_half_life ln_four short_series_no_estimate)


section \<open>Properties of the funding advisory\<close>

text \<open>
  C5 (as amended). When both funding rates are known, the action is one of
  \<open>enter_short_A_long_B\<close> and \<open>enter_long_A_short_B\<close>, and \<open>countdown_ms\<close> and \<open>t_exit_s\<close> are
  both present and non-zero: \<open>net_rate\<close> is the short leg's rate minus the long leg's;
  with \<open>time_to_funding_s = max(0, int(countdown_ms / 1000))\<close>, the advice is the first
  literal of the source when \<open>t_exit_s < time_to_funding_s\<close> and the second otherwise;
  \<open>net_funding_cycle_usd = notional * net_rate\<close>; and \<open>expect_funding_next_usd\<close> is that
  value when \<open>t_exit_s \<ge> time_to_funding_s\<close> and 0 otherwise.
\<close>

theorem funding_advisory_spec:
  assumes act: "act = ''enter_short_A_long_B'' \<or> act = ''enter_long_A_short_B''"
    and rates: "fr_a_rate = Some fa" "fr_b_rate = Some fb"
    and avail: "countdown_ms = Some c" "c \<noteq> 0" "t_exit_s = Some t" "t \<noteq> 0"
  shows "net_rate act fr_a_rate fr_b_rate
           = Some (if act = ''enter_short_A_long_B'' then fa - fb else fb - fa)
       \<and> advice (funding_advisory act fr_a_rate fr_b_rate countdown_ms t_exit_s notional_usd)
           = Some (if t < real_of_int (max 0 (py_int_of_float (c / 1000)))
                   then advice_before_funding else advice_spans_funding)
       \<and> net_funding_cycle_usd
            (funding_advisory act fr_a_rate fr_b_rate countdown_ms t_exit_s notional_usd)
           = Some (notional_usd * (if act = ''enter_short_A_long_B'' then fa - fb else fb - fa))
       \<and> expect_funding_next_usd
            (funding_advisory act fr_a_rate fr_b_rate countdown_ms t_exit_s notional_usd)
           = Some (if t \<ge> real_of_int (max 0 (py_int_of_float (c / 1000)))
                   then notional_usd * (if act = ''enter_short_A_long_B'' then fa - fb else fb - fa)
                   else 0)"
proof -
  have nr: "net_rate act fr_a_rate fr_b_rate
           = Some (if act = ''enter_short_A_long_B'' then fa - fb else fb - fa)"
    using act rates by (auto simp: net_rate_def)
  show ?thesis
    unfolding funding_advisory_def nr
    using avail by (simp add: py_truthy_def time_to_funding_s_def Let_def nr)
qed

lemma trunc_3600: "py_int_of_float 3600 = 3600"
  by (simp add: py_int_of_float_def)

theorem funding_advisory_spec_witness:
  "advice (funding_advisory ''enter_short_A_long_B'' (Some (1/10000)) (Some (3/10000))
             (Some 3600000) (Some 600) 1000) = Some advice_before_funding
   \<and> net_funding_cycle_usd (funding_advisory ''enter_short_A_long_B'' (Some (1/10000))
             (Some (3/10000)) (Some 3600000) (Some 600) 1000) = Some (- 1/5)
   \<and> expect_funding_next_usd (funding_advisory ''enter_short_A_long_B'' (Some (1/10000))
             (Some (3/10000)) (Some 3600000) (Some 600) 1000) = Some 0"
  using funding_advisory_spec [of "''enter_short_A_long_B''" "Some (1/10000)" "1/10000"
      "Some (3/10000)" "3/10000" "Some 3600000" 3600000 "Some 600" 600 1000]
  by (simp add: trunc_3600)

text \<open>
  The claim as first stated names two English sentences as the exact advice strings. The
  source's literals are different strings: at \<open>countdown_ms = 3600000\<close> with
  \<open>t_exit_s = 600\<close>, and with \<open>t_exit_s = 4000\<close>, the advice is neither of them.
\<close>

theorem funding_advisory_text_differs:
  "advice (funding_advisory ''enter_short_A_long_B'' (Some (1/10000)) (Some (3/10000))
             (Some 3600000) (Some 600) 1000)
     \<noteq> Some ''convergence expected before next funding; funding avoidable''
   \<and> advice (funding_advisory ''enter_short_A_long_B'' (Some (1/10000)) (Some (3/10000))
             (Some 3600000) (Some 4000) 1000)
     \<noteq> Some ''position likely to span next funding; evaluate net funding''"
  by (simp add: funding_advisory_def net_rate_def py_truthy_def time_to_funding_s_def trunc_3600 Let_def
      advice_before_funding_def advice_spans_funding_def)


section \<open>Properties of the execution simulator\<close>

lemma avg_exec_loop_spec:
  "avg_exec_loop ls rem tq f =
     (rem - sum_list (spec_takes ls rem),
      tq + (\<Sum>(take, price, qty)\<leftarrow>zip (spec_takes ls rem) ls. take * price),
      f + sum_list (spec_takes ls rem))"
proof (induction ls arbitrary: rem tq f)
  case Nil
  then show ?case by simp
next
  case (Cons l ls)
  obtain price qty where l: "l = (price, qty)" by (cases l)
  show ?case
    by (simp add: l Cons.IH Let_def algebra_simps)
qed

lemma avg_exec_price_spec:
  "avg_exec_price ls q side =
     ((if spec_filled ls q > 0 then spec_quote ls q / spec_filled ls q else 0), spec_filled ls q)"
  by (simp add: avg_exec_price_def avg_exec_loop_spec spec_filled_def spec_quote_def)

lemma simulate_scenario:
  "api_simulate True 100 100 \<lparr>bids = [(100, 1), (99, 2)], asks = [(101, 3)]\<rparr>
          \<lparr>bids = [(99, 4)], asks = [(100, 5)]\<rparr> None None 150 ''enter_short_A_long_B''
        = Inr \<lparr>sim_mid_a = 100, sim_mid_b = 100, sim_avg_a = 299 / 3, sim_avg_b = 100,
               sim_slip_a_pct = 1 / 300, sim_slip_b_pct = 0, sim_slip_a_usd = 1 / 2,
               sim_slip_b_usd = 0, sim_fee_a_usd = 0, sim_fee_b_usd = 0,
               sim_total_cost_usd = 1 / 2, sim_filled_base_a = 3 / 2,
               sim_filled_base_b = 3 / 2\<rparr>
   \<and> spec_takes [(100, 1), (99, 2)] (150 / 100) = [1, 1 / 2]
   \<and> spec_quote [(100, 1), (99, 2)] (150 / 100) = 299 / 2
   \<and> \<bar>299 / 3 - 99667 / 1000\<bar> < (1 / 1000 :: real)
   \<and> \<bar>1 / 300 - 333 / 100000\<bar> < (1 / 100000 :: real)"
  by (simp add: api_simulate_def avg_exec_price_def spec_quote_def Let_def)

text \<open>
  C9 (as amended). For a configured pair, non-zero mid prices and one of the two patterns,
  \<open>api_simulate\<close> answers, and for each leg: the base quantity is \<open>notional / mid\<close>; the levels
  of the traded side are consumed greedily with \<open>take = min(remaining, qty)\<close>, accumulating
  the quote total and the filled base; the average execution price is quote over filled
  when something was filled and 0 otherwise; the slippage fraction is \<open>|avg - mid| / mid\<close>
  when the average is positive and 0 otherwise; slippage USD is the fraction times the
  notional; the taker fee USD is the taker rate (0 when there is none) times the notional;
  and \<open>total_cost_usd\<close> is the sum over both legs of slippage USD plus fee USD. Selling 1.5
  (notional 150 at mid 100) into the bids \<open>[[100, 1], [99, 2]]\<close> takes 1 at 100 and 0.5 at 99,
  with average \<open>149.5 / 1.5 = 299 / 3\<close> (about 99.667) and slippage \<open>1 / 300\<close> (about 0.00333).
\<close>

theorem api_simulate_spec:
  assumes "configured" "mid_a \<noteq> 0" "mid_b \<noteq> 0"
    and "pattern = ''enter_short_A_long_B'' \<or> pattern = ''enter_long_A_short_B''"
  shows "(\<exists>r. api_simulate configured mid_a mid_b levels_a levels_b taker_a taker_b notional_usd pattern
                = Inr r
        \<and> sim_mid_a r = mid_a \<and> sim_mid_b r = mid_b
        \<and> sim_filled_base_a r = spec_filled (leg_levels pattern True levels_a) (notional_usd / mid_a)
        \<and> sim_filled_base_b r = spec_filled (leg_levels pattern False levels_b) (notional_usd / mid_b)
        \<and> sim_avg_a r = (if sim_filled_base_a r > 0
                          then spec_quote (leg_levels pattern True levels_a) (notional_usd / mid_a)
                               / sim_filled_base_a r
                          else 0)
        \<and> sim_avg_b r = (if sim_filled_base_b r > 0
                          then spec_quote (leg_levels pattern False levels_b) (notional_usd / mid_b)
                               / sim_filled_base_b r
                          else 0)
        \<and> sim_slip_a_pct r = (if sim_avg_a r > 0 then \<bar>sim_avg_a r - mid_a\<bar> / mid_a else 0)
        \<and> sim_slip_b_pct r = (if sim_avg_b r > 0 then \<bar>sim_avg_b r - mid_b\<bar> / mid_b else 0)
        \<and> sim_slip_a_usd r = sim_slip_a_pct r * notional_usd
        \<and> sim_slip_b_usd r = sim_slip_b_pct r * notional_usd
        \<and> sim_fee_a_usd r = (case taker_a of None \<Rightarrow> 0 | Some f \<Rightarrow> f) * notional_usd
        \<and> sim_fee_b_usd r = (case taker_b of None \<Rightarrow> 0 | Some f \<Rightarrow> f) * notional_usd
        \<and> sim_total_cost_usd r
            = (sim_slip_a_usd r + sim_fee_a_usd r) + (sim_slip_b_usd r + sim_fee_b_usd r))
   \<and> api_simulate True 100 100 \<lparr>bids = [(100, 1), (99, 2)], asks = [(101, 3)]\<rparr>
          \<lparr>bids = [(99, 4)], asks = [(100, 5)]\<rparr> None None 150 ''enter_short_A_long_B''
        = Inr \<lparr>sim_mid_a = 100, sim_mid_b = 100, sim_avg_a = 299 / 3, sim_avg_b = 100,
               sim_slip_a_pct = 1 / 300, sim_slip_b_pct = 0, sim_slip_a_usd = 1 / 2,
               sim_slip_b_usd = 0, sim_fee_a_usd = 0, sim_fee_b_usd = 0,
               sim_total_cost_usd = 1 / 2, sim_filled_base_a = 3 / 2,
               sim_filled_base_b = 3 / 2\<rparr>
   \<and> spec_takes [(100, 1), (99, 2)] (150 / 100) = [1, 1 / 2]
   \<and> spec_quote [(100, 1), (99, 2)] (150 / 100) = 299 / 2
   \<and> \<bar>299 / 3 - 99667 / 1000\<bar> < (1 / 1000 :: real)
   \<and> \<bar>1 / 300 - 333 / 100000\<bar> < (1 / 100000 :: real)"
proof (rule conjI [OF _ simulate_scenario])
  from assms(4) show "\<exists>r. api_simulate configured mid_a mid_b levels_a levels_b taker_a taker_b notional_usd pattern
             = Inr r
     \<and> sim_mid_a r = mid_a \<and> sim_mid_b r = mid_b
     \<and> sim_filled_base_a r = spec_filled (leg_levels pattern True levels_a) (notional_usd / mid_a)
     \<and> sim_filled_base_b r = spec_filled (leg_levels pattern False levels_b) (notional_usd / mid_b)
     \<and> sim_avg_a r = (if sim_filled_base_a r > 0
                       then spec_quote (leg_levels pattern True levels_a) (notional_usd / mid_a)
                            / sim_filled_base_a r
                       else 0)
     \<and> sim_avg_b r = (if sim_filled_base_b r > 0
                       then spec_quote (leg_levels pattern False levels_b) (notional_usd / mid_b)
                            / sim_filled_base_b r
                       else 0)
     \<and> sim_slip_a_pct r = (if sim_avg_a r > 0 then \<bar>sim_avg_a r - mid_a\<bar> / mid_a else 0)
     \<and> sim_slip_b_pct r = (if sim_avg_b r > 0 then \<bar>sim_avg_b r - mid_b\<bar> / mid_b else 0)
     \<and> sim_slip_a_usd r = sim_slip_a_pct r * notional_usd
     \<and> sim_slip_b_usd r = sim_slip_b_pct r * notional_usd
     \<and> sim_fee_a_usd r = (case taker_a of None \<Rightarrow> 0 | Some f \<Rightarrow> f) * notional_usd
     \<and> sim_fee_b_usd r = (case taker_b of None \<Rightarrow> 0 | Some f \<Rightarrow> f) * notional_usd
     \<and> sim_total_cost_usd r
         = (sim_slip_a_usd r + sim_fee_a_usd r) + (sim_slip_b_usd r + sim_fee_b_usd r)"
  proof
    assume p: "pattern = ''enter_short_A_long_B''"
    show ?thesis
      using assms(1-3)
      by (simp add: p api_simulate_def avg_exec_price_spec leg_levels_def Let_def)
  next
    assume p: "pattern = ''enter_long_A_short_B''"
    show ?thesis
      using assms(1-3)
      by (simp add: p api_simulate_def avg_exec_price_spec leg_levels_def Let_def)
  qed
qed

theorem api_simulate_spec_witness:
  "\<exists>r. api_simulate True 100 100 \<lparr>bids = [(100, 1), (99, 2)], asks = [(101, 3)]\<rparr>
          \<lparr>bids = [(99, 4)], asks = [(100, 5)]\<rparr> None None 150 ''enter_short_A_long_B'' = Inr r
      \<and> sim_filled_base_a r = 3 / 2 \<and> sim_avg_a r = 299 / 3 \<and> sim_slip_a_pct r = 1 / 300
      \<and> sim_slip_a_usd r = 1 / 2 \<and> sim_total_cost_usd r = 1 / 2"
  using api_simulate_spec [where configured = True and mid_a = 100 and mid_b = 100
      and pattern = "''enter_short_A_long_B''"
      and levels_a = "\<lparr>bids = [(100, 1), (99, 2)], asks = [(101, 3)]\<rparr>"
      and levels_b = "\<lparr>bids = [(99, 4)], asks = [(100, 5)]\<rparr>"
      and taker_a = None and taker_b = None and notional_usd = 150]
  by simp

text \<open>
  The claim as first stated gives the slippage fraction as \<open>|avg - mid| / mid\<close> without the
  guard. On an empty book nothing is filled, the average is 0, and the reported slippage
  fraction is 0, while \<open>|0 - 100| / 100\<close> is 1.
\<close>

theorem api_simulate_empty_book:
  "api_simulate True 100 100 \<lparr>bids = [], asks = []\<rparr> \<lparr>bids = [], asks = []\<rparr> None None 150
       ''enter_short_A_long_B''
     = Inr \<lparr>sim_mid_a = 100, sim_mid_b = 100, sim_avg_a = 0, sim_avg_b = 0,
            sim_slip_a_pct = 0, sim_slip_b_pct = 0, sim_slip_a_usd = 0,
            sim_slip_b_usd = 0, sim_fee_a_usd = 0, sim_fee_b_usd = 0,
            sim_total_cost_usd = 0, sim_filled_base_a = 0, sim_filled_base_b = 0\<rparr>
   \<and> sim_slip_a_pct \<lparr>sim_mid_a = 100, sim_mid_b = 100, sim_avg_a = 0, sim_avg_b = 0,
            sim_slip_a_pct = 0, sim_slip_b_pct = 0, sim_slip_a_usd = 0,
            sim_slip_b_usd = 0, sim_fee_a_usd = 0, sim_fee_b_usd = 0,
            sim_total_cost_usd = 0, sim_filled_base_a = 0, sim_filled_base_b = 0\<rparr>
       \<noteq> \<bar>0 - 100\<bar> / (100 :: real)"
  by (simp add: api_simulate_def avg_exec_price_def Let_def)

section \<open>Properties of the bin statistics\<close>

lemma py_round_bounds:
  assumes "0 \<le> r" "r \<le> real_of_int m"
  shows "0 \<le> py_round r \<and> py_round r \<le> m"
proof -
  have f0: "0 \<le> \<lfloor>r\<rfloor>" using assms(1) by simp
  have fm: "\<lfloor>r\<rfloor> \<le> m" using assms(2) by (simp add: floor_le_iff)
  show ?thesis
  proof (cases "\<lfloor>r\<rfloor> = m")
    case True
    then have "r - real_of_int \<lfloor>r\<rfloor> \<le> 0" using assms(2) by simp
    then have "r - real_of_int \<lfloor>r\<rfloor> < 1/2" by simp
    then show ?thesis using f0 fm by (simp add: py_round_def Let_def)
  next
    case False
    with fm have "\<lfloor>r\<rfloor> + 1 \<le> m" by simp
    then show ?thesis using f0 fm by (simp add: py_round_def Let_def)
  qed
qed

lemma pct_index:
  assumes "samples \<noteq> []" "0 \<le> p" "p \<le> 1"
  shows "pct samples p = Some (samples ! nat (py_round (p * (real (length samples) - 1))))
       \<and> nat (py_round (p * (real (length samples) - 1))) < length samples"
proof -
  define m where "m = int (length samples) - 1"
  have m0: "0 \<le> m" using assms(1) by (cases samples) (simp_all add: m_def)
  have rm: "real_of_int m = real (length samples) - 1" by (simp add: m_def)
  have "0 \<le> p * real_of_int m" using assms(2) m0 by simp
  moreover have "p * real_of_int m \<le> real_of_int m"
    using mult_right_mono [of p 1 "real_of_int m"] assms(3) m0 by simp
  ultimately have b: "0 \<le> py_round (p * real_of_int m)" "py_round (p * real_of_int m) \<le> m"
    using py_round_bounds by blast+
  have k: "max 0 (min m (py_round (p * real_of_int m))) = py_round (p * real_of_int m)"
    using b by simp
  have "pct samples p = Some (samples ! nat (py_round (p * real_of_int m)))"
    using assms(1) unfolding pct_def Let_def m_def [symmetric] k by simp
  moreover have "nat (py_round (p * real_of_int m)) < length samples"
    using b by (simp add: m_def)
  ultimately show ?thesis by (simp add: rm)
qed

lemma pct_empty: "pct [] p = None"
  by (simp add: pct_def)

lemma bins_loop_member:
  "bins_loop absz tms countdown ez bs = Some sts \<Longrightarrow> st \<in> set sts \<Longrightarrow>
   \<exists>b\<in>set bs. bin_entry absz tms countdown ez b = Some st"
proof (induction bs arbitrary: sts)
  case Nil
  then show ?case by simp
next
  case (Cons b bs)
  then show ?case
    by (fastforce split: option.splits)
qed


lemma bin_entry_percentiles:
  assumes "bin_entry absz tms countdown ez b = Some st"
  shows "\<exists>ds ps.
           walk_bin absz tms countdown ez (bin_lo st) (bin_hi st) 1 [] [] = Some (ds, ps)
         \<and> samples_n st = length ds
         \<and> (ds = [] \<longrightarrow>
              p25_s st = None \<and> median_s st = None \<and> p75_s st = None \<and> p90_s st = None)
         \<and> (ds \<noteq> [] \<longrightarrow>
              p25_s st = Some (sort ds ! nat (py_round (1/4 * (real (length ds) - 1))))
            \<and> median_s st = Some (sort ds ! nat (py_round (1/2 * (real (length ds) - 1))))
            \<and> p75_s st = Some (sort ds ! nat (py_round (3/4 * (real (length ds) - 1))))
            \<and> p90_s st = Some (sort ds ! nat (py_round (9/10 * (real (length ds) - 1))))
            \<and> nat (py_round (9/10 * (real (length ds) - 1))) < length ds)"
proof -
  from assms obtain ds ps where
    w: "walk_bin absz tms countdown ez (fst b) (snd b) 1 [] [] = Some (ds, ps)"
    by (auto simp: bin_entry_def split: option.splits)
  with assms have st: "st = \<lparr>bin_lo = fst b, bin_hi = snd b, samples_n = length (sort ds),
                   p25_s = pct (sort ds) (1/4), median_s = pct (sort ds) (1/2),
                   p75_s = pct (sort ds) (3/4), p90_s = pct (sort ds) (9/10),
                   prob_exit_before_funding =
                     (if ps = [] then None else Some (sum_list ps / real (length ps)))\<rparr>"
    by (simp add: bin_entry_def Let_def)
  have e: "ds = [] \<Longrightarrow> sort ds = []" by simp
  have ne: "ds \<noteq> [] \<Longrightarrow> sort ds \<noteq> []" by (metis length_sort length_0_conv)
  have p: "ds \<noteq> [] \<Longrightarrow> 0 \<le> q \<Longrightarrow> q \<le> 1 \<Longrightarrow>
      pct (sort ds) q = Some (sort ds ! nat (py_round (q * (real (length ds) - 1))))
       \<and> nat (py_round (q * (real (length ds) - 1))) < length ds" for q
    using pct_index [OF ne, of q] by simp
  show ?thesis
    apply (rule exI [of _ ds], rule exI [of _ ps])
    using w p [of "1/4"] p [of "1/2"] p [of "3/4"] p [of "9/10"]
    by (simp add: st pct_empty)
qed

lemma stats_scenario:
  "api_stats_bins ''BTCUSDT''
       [\<lparr>row_ts_ms = 4000, row_z = Some (2/5), row_fr_countdown_ms = None\<rparr>,
        \<lparr>row_ts_ms = 3000, row_z = Some 1, row_fr_countdown_ms = None\<rparr>,
        \<lparr>row_ts_ms = 2000, row_z = Some (- 1), row_fr_countdown_ms = None\<rparr>,
        \<lparr>row_ts_ms = 1000, row_z = Some 2, row_fr_countdown_ms = None\<rparr>,
        \<lparr>row_ts_ms = 0, row_z = None, row_fr_countdown_ms = None\<rparr>]
       10000 7 (1/2) (Some [3/2, 5/2])
     = Some (Inr [\<lparr>bin_lo = 3/2, bin_hi = Some (5/2), samples_n = 1, p25_s = Some 3,
                   median_s = Some 3, p75_s = Some 3, p90_s = Some 3,
                   prob_exit_before_funding = None\<rparr>,
                  \<lparr>bin_lo = 5/2, bin_hi = None, samples_n = 0, p25_s = None,
                   median_s = None, p75_s = None, p90_s = None,
                   prob_exit_before_funding = None\<rparr>])"
  by (simp add: api_stats_bins_def window_rows_def abs_z_series_def parse_edges_def
      bin_entry_def walk_bin.simps scan_exit.simps pct_def py_round_def Let_def)

lemma scan_exit_Some:
  "scan_exit absz ez j = Some k \<Longrightarrow> j \<le> k \<and> k < length absz \<and> absz ! k \<le> ez"
proof (induction absz ez j rule: scan_exit.induct)
  case (1 absz ez j)
  show ?case
  proof (cases "j < length absz \<and> \<not> absz ! j \<le> ez")
    case True
    with "1.prems" have "scan_exit absz ez (j + 1) = Some k"
      by (subst (asm) scan_exit.simps) simp
    with "1.IH" True show ?thesis by simp
  next
    case False
    with "1.prems" show ?thesis
      by (subst (asm) scan_exit.simps) (auto split: if_splits)
  qed
qed

lemma walk_bin_returns:
  assumes "ez < lo"
  shows "\<exists>r. walk_bin absz tms countdown ez lo hi i samples probs = Some r"
proof (induction "length absz - i" arbitrary: i samples probs rule: less_induct)
  case less
  show ?case
  proof (cases "i < length absz")
    case False
    then show ?thesis by (subst walk_bin.simps) simp
  next
    case True
    have next_i: "\<exists>r. walk_bin absz tms countdown ez lo hi (i + 1) s p = Some r" for s p
      using True by (intro less) simp
    show ?thesis
    proof (cases "absz ! (i - 1) < lo \<and> absz ! i \<ge> lo
            \<and> (case hi of None \<Rightarrow> True | Some h \<Rightarrow> absz ! i < h)")
      case False
      then show ?thesis
        using True next_i [of samples probs] by (subst walk_bin.simps) auto
    next
      case enter: True
      show ?thesis
      proof (cases "scan_exit absz ez i")
        case None
        then show ?thesis
          using True enter next_i [of samples probs] by (subst walk_bin.simps) auto
      next
        case (Some j)
        from scan_exit_Some [OF Some] have j: "i \<le> j" "j < length absz" "absz ! j \<le> ez"
          by simp_all
        from enter assms have "ez < absz ! i" by simp
        with j have "i < j" by (cases "i = j") auto
        then have "\<exists>r. walk_bin absz tms countdown ez lo hi j s p = Some r" for s p
          using j(2) by (intro less) simp
        then show ?thesis
          using True enter Some by (subst walk_bin.simps) (auto simp del: scan_exit.simps)
      qed
    qed
  qed
qed

lemma bins_loop_returns:
  assumes "\<forall>b\<in>set bs. ez < fst b"
  shows "\<exists>sts. bins_loop absz tms countdown ez bs = Some sts"
  using assms
proof (induction bs)
  case Nil
  then show ?case by simp
next
  case (Cons b bs)
  from Cons.prems have "ez < fst b" by simp
  from walk_bin_returns [OF this, of absz tms countdown "snd b" 1 "[]" "[]"]
  obtain st where "bin_entry absz tms countdown ez b = Some st"
    by (auto simp: bin_entry_def Let_def)
  moreover from Cons obtain sts where "bins_loop absz tms countdown ez bs = Some sts"
    by auto
  ultimately show ?case by simp
qed

lemma api_stats_bins_returns:
  assumes "pair \<noteq> []" "\<forall>b\<in>set (parse_edges edges). ez < fst b"
  shows "\<exists>stats. api_stats_bins pair rows now_ms days ez edges = Some (Inr stats)"
proof -
  from bins_loop_returns [OF assms(2)]
  obtain sts where "bins_loop (abs_z_series (window_rows rows now_ms days))
       (map row_ts_ms (window_rows rows now_ms days))
       (map row_fr_countdown_ms (window_rows rows now_ms days)) ez (parse_edges edges) = Some sts"
    by blast
  with assms(1) show ?thesis by (simp add: api_stats_bins_def Let_def)
qed

text \<open>
  The walk can indeed fail to return: with an edge at 0.2 below \<open>exit_z = 0.5\<close>, an entry at
  \<open>|z| = 0.3\<close> is its own exit, and the index never moves.
\<close>

lemma walk_bin_spins:
  "walk_bin [1/10, 3/10] [0, 1000] [None, None] (1/2) (1/5) None 1 samples probs = None"
proof (rule ccontr)
  assume "walk_bin [1/10, 3/10] [0, 1000] [None, None] (1/2) (1/5) None 1 samples probs \<noteq> None"
  then obtain y where
    eq: "walk_bin [1/10, 3/10] [0, 1000] [None, None] (1/2) (1/5) None 1 samples probs = Some y"
    by auto
  have "\<not> ([1/10, 3/10] = [1/10, 3/10 :: real] \<and> [0, 1000] = [0, 1000 :: int]
            \<and> [None, None] = [None, None :: real option] \<and> (1/2 :: real) = 1/2
            \<and> (1/5 :: real) = 1/5 \<and> (None :: real option) = None \<and> (1 :: nat) = 1)"
  proof (rule walk_bin.raw_induct
      [where P = "\<lambda>absz tms cd ez lo hi i s p y.
          \<not> (absz = [1/10, 3/10] \<and> tms = [0, 1000] \<and> cd = [None, None] \<and> ez = 1/2
             \<and> lo = 1/5 \<and> hi = None \<and> i = 1)", OF _ eq])
    fix f :: "real list \<Rightarrow> int list \<Rightarrow> real option list \<Rightarrow> real \<Rightarrow> real \<Rightarrow> real option
                \<Rightarrow> nat \<Rightarrow> real list \<Rightarrow> real list \<Rightarrow> (real list \<times> real list) option"
      and absz tms cd ez lo hi i s p y
    assume IH: "\<And>absz tms cd ez lo hi i s p y. f absz tms cd ez lo hi i s p = Some y \<Longrightarrow>
        \<not> (absz = [1/10, 3/10] \<and> tms = [0, 1000] \<and> cd = [None, None] \<and> ez = 1/2
             \<and> lo = 1/5 \<and> hi = None \<and> i = 1)"
      and step: "(if i < length absz
      then
        (if absz ! (i - 1) < lo \<and> absz ! i \<ge> lo
            \<and> (case hi of None \<Rightarrow> True | Some h \<Rightarrow> absz ! i < h)
         then
           (case scan_exit absz ez i of
              Some j \<Rightarrow>
                f absz tms cd ez lo hi j
                  (s @ [real_of_int (tms ! j - tms ! i) / 1000])
                  (case cd ! i of
                     None \<Rightarrow> p
                   | Some c \<Rightarrow>
                       p @ [if real_of_int (tms ! j - tms ! i) \<le> c then 1 else 0])
            | None \<Rightarrow> f absz tms cd ez lo hi (i + 1) s p)
         else f absz tms cd ez lo hi (i + 1) s p)
      else Some (s, p)) = Some y"
    show "\<not> (absz = [1/10, 3/10] \<and> tms = [0, 1000] \<and> cd = [None, None] \<and> ez = 1/2
             \<and> lo = 1/5 \<and> hi = None \<and> i = 1)"
    proof
      assume a: "absz = [1/10, 3/10] \<and> tms = [0, 1000] \<and> cd = [None, None] \<and> ez = 1/2
             \<and> lo = 1/5 \<and> hi = None \<and> i = 1"
      then have e: "absz = [1/10, 3/10]" "tms = [0, 1000]" "cd = [None, None]" "ez = 1/2"
        "lo = 1/5" "hi = None" "i = 1"
        by blast+
      have sc: "scan_exit [1/10, 3/10] (1/2) (Suc 0) = Some (Suc 0)"
        by (simp add: scan_exit.simps)
      from step have "f [1/10, 3/10] [0, 1000] [None, None] (1/2) (1/5) None 1 (s @ [0]) p = Some y"
        unfolding e by (simp add: sc)
      from IH [OF this] show False by simp
    qed
  qed
  then show False by simp
qed

text \<open>
  C4 (as amended). For every bin that \<open>api_stats_bins\<close> reports, with \<open>n\<close> the number of
  exit durations the walk collected for it: \<open>samples\<close> is \<open>n\<close>; when \<open>n = 0\<close> all four
  percentiles are null; otherwise \<open>p25_s\<close>, \<open>median_s\<close>, \<open>p75_s\<close> and \<open>p90_s\<close> are the elements
  of the ascending-sorted durations at the 0-based index \<open>round(p * (n - 1))\<close> for \<open>p\<close> =
  0.25, 0.5, 0.75, 0.9, with Python's \<open>round\<close> (a tie goes to the even integer). A request
  with a pair name whose bin edges all lie above \<open>exit_z\<close> does return its bins. For a
  series with one entry into the \<open>(1.5, 2.5)\<close> bin at \<open>|z| = 2.0\<close> that takes 3 s to reach
  \<open>|z| \<le> exit_z = 0.5\<close>, that bin reports \<open>samples = 1\<close> and a median of 3.0.
\<close>

theorem api_stats_bins_percentiles:
  "(\<forall>stats st.
      api_stats_bins pair rows now_ms days ez edges = Some (Inr stats) \<and> st \<in> set stats \<longrightarrow>
      (\<exists>ds ps.
           walk_bin (abs_z_series (window_rows rows now_ms days))
             (map row_ts_ms (window_rows rows now_ms days))
             (map row_fr_countdown_ms (window_rows rows now_ms days))
             ez (bin_lo st) (bin_hi st) 1 [] [] = Some (ds, ps)
         \<and> samples_n st = length ds
         \<and> sorted (sort ds)
         \<and> (ds = [] \<longrightarrow>
              p25_s st = None \<and> median_s st = None \<and> p75_s st = None \<and> p90_s st = None)
         \<and> (ds \<noteq> [] \<longrightarrow>
              p25_s st = Some (sort ds ! nat (py_round (1/4 * (real (length ds) - 1))))
            \<and> median_s st = Some (sort ds ! nat (py_round (1/2 * (real (length ds) - 1))))
            \<and> p75_s st = Some (sort ds ! nat (py_round (3/4 * (real (length ds) - 1))))
            \<and> p90_s st = Some (sort ds ! nat (py_round (9/10 * (real (length ds) - 1))))
            \<and> nat (py_round (9/10 * (real (length ds) - 1))) < length ds)))
   \<and> (pair \<noteq> [] \<and> (\<forall>b\<in>set (parse_edges edges). ez < fst b) \<longrightarrow>
        (\<exists>stats. api_stats_bins pair rows now_ms days ez edges = Some (Inr stats)))
   \<and> api_stats_bins ''BTCUSDT''
       [\<lparr>row_ts_ms = 4000, row_z = Some (2/5), row_fr_countdown_ms = None\<rparr>,
        \<lparr>row_ts_ms = 3000, row_z = Some 1, row_fr_countdown_ms = None\<rparr>,
        \<lparr>row_ts_ms = 2000, row_z = Some (- 1), row_fr_countdown_ms = None\<rparr>,
        \<lparr>row_ts_ms = 1000, row_z = Some 2, row_fr_countdown_ms = None\<rparr>,
        \<lparr>row_ts_ms = 0, row_z = None, row_fr_countdown_ms = None\<rparr>]
       10000 7 (1/2) (Some [3/2, 5/2])
     = Some (Inr [\<lparr>bin_lo = 3/2, bin_hi = Some (5/2), samples_n = 1, p25_s = Some 3,
                   median_s = Some 3, p75_s = Some 3, p90_s = Some 3,
                   prob_exit_before_funding = None\<rparr>,
                  \<lparr>bin_lo = 5/2, bin_hi = None, samples_n = 0, p25_s = None,
                   median_s = None, p75_s = None, p90_s = None,
                   prob_exit_before_funding = None\<rparr>])"
proof (intro conjI allI impI)
  fix stats st
  assume h: "api_stats_bins pair rows now_ms days ez edges = Some (Inr stats) \<and> st \<in> set stats"
  then have
    "bins_loop (abs_z_series (window_rows rows now_ms days))
       (map row_ts_ms (window_rows rows now_ms days))
       (map row_fr_countdown_ms (window_rows rows now_ms days)) ez (parse_edges edges)
     = Some stats"
    by (simp add: api_stats_bins_def Let_def split: if_splits option.splits)
  from bins_loop_member [OF this] h obtain b where
    "bin_entry (abs_z_series (window_rows rows now_ms days))
       (map row_ts_ms (window_rows rows now_ms days))
       (map row_fr_countdown_ms (window_rows rows now_ms days)) ez b = Some st"
    by blast
  from bin_entry_percentiles [OF this]
  show "\<exists>ds ps.
           walk_bin (abs_z_series (window_rows rows now_ms days))
             (map row_ts_ms (window_rows rows now_ms days))
             (map row_fr_countdown_ms (window_rows rows now_ms days))
             ez (bin_lo st) (bin_hi st) 1 [] [] = Some (ds, ps)
         \<and> samples_n st = length ds
         \<and> sorted (sort ds)
         \<and> (ds = [] \<longrightarrow>
              p25_s st = None \<and> median_s st = None \<and> p75_s st = None \<and> p90_s st = None)
         \<and> (ds \<noteq> [] \<longrightarrow>
              p25_s st = Some (sort ds ! nat (py_round (1/4 * (real (length ds) - 1))))
            \<and> median_s st = Some (sort ds ! nat (py_round (1/2 * (real (length ds) - 1))))
            \<and> p75_s st = Some (sort ds ! nat (py_round (3/4 * (real (length ds) - 1))))
            \<and> p90_s st = Some (sort ds ! nat (py_round (9/10 * (real (length ds) - 1))))
            \<and> nat (py_round (9/10 * (real (length ds) - 1))) < length ds)"
    by auto
next
  assume "pair \<noteq> [] \<and> (\<forall>b\<in>set (parse_edges edges). ez < fst b)"
  then show "\<exists>stats. api_stats_bins pair rows now_ms days ez edges = Some (Inr stats)"
    by (intro api_stats_bins_returns) simp_all
next
  show "api_stats_bins ''BTCUSDT''
       [\<lparr>row_ts_ms = 4000, row_z = Some (2/5), row_fr_countdown_ms = None\<rparr>,
        \<lparr>row_ts_ms = 3000, row_z = Some 1, row_fr_countdown_ms = None\<rparr>,
        \<lparr>row_ts_ms = 2000, row_z = Some (- 1), row_fr_countdown_ms = None\<rparr>,
        \<lparr>row_ts_ms = 1000, row_z = Some 2, row_fr_countdown_ms = None\<rparr>,
        \<lparr>row_ts_ms = 0, row_z = None, row_fr_countdown_ms = None\<rparr>]
       10000 7 (1/2) (Some [3/2, 5/2])
     = Some (Inr [\<lparr>bin_lo = 3/2, bin_hi = Some (5/2), samples_n = 1, p25_s = Some 3,
                   median_s = Some 3, p75_s = Some 3, p90_s = Some 3,
                   prob_exit_before_funding = None\<rparr>,
                  \<lparr>bin_lo = 5/2, bin_hi = None, samples_n = 0, p25_s = None,
                   median_s = None, p75_s = None, p90_s = None,
                   prob_exit_before_funding = None\<rparr>])"
    by (rule stats_scenario)
qed

theorem api_stats_bins_percentiles_witness:
  "\<exists>ds ps.
     walk_bin (abs_z_series (window_rows [\<lparr>row_ts_ms = 4000, row_z = Some (2/5), row_fr_countdown_ms = None\<rparr>,
        \<lparr>row_ts_ms = 3000, row_z = Some 1, row_fr_countdown_ms = None\<rparr>,
        \<lparr>row_ts_ms = 2000, row_z = Some (- 1), row_fr_countdown_ms = None\<rparr>,
        \<lparr>row_ts_ms = 1000, row_z = Some 2, row_fr_countdown_ms = None\<rparr>,
        \<lparr>row_ts_ms = 0, row_z = None, row_fr_countdown_ms = None\<rparr>] 10000 7))
       (map row_ts_ms (window_rows [\<lparr>row_ts_ms = 4000, row_z = Some (2/5), row_fr_countdown_ms = None\<rparr>,
        \<lparr>row_ts_ms = 3000, row_z = Some 1, row_fr_countdown_ms = None\<rparr>,
        \<lparr>row_ts_ms = 2000, row_z = Some (- 1), row_fr_countdown_ms = None\<rparr>,
        \<lparr>row_ts_ms = 1000, row_z = Some 2, row_fr_countdown_ms = None\<rparr>,
        \<lparr>row_ts_ms = 0, row_z = None, row_fr_countdown_ms = None\<rparr>] 10000 7))
       (map row_fr_countdown_ms (window_rows [\<lparr>row_ts_ms = 4000, row_z = Some (2/5), row_fr_countdown_ms = None\<rparr>,
        \<lparr>row_ts_ms = 3000, row_z = Some 1, row_fr_countdown_ms = None\<rparr>,
        \<lparr>row_ts_ms = 2000, row_z = Some (- 1), row_fr_countdown_ms = None\<rparr>,
        \<lparr>row_ts_ms = 1000, row_z = Some 2, row_fr_countdown_ms = None\<rparr>,
        \<lparr>row_ts_ms = 0, row_z = None, row_fr_countdown_ms = None\<rparr>] 10000 7))
       (1/2) (3/2) (Some (5/2)) 1 [] [] = Some (ds, ps)
   \<and> length ds = 1
   \<and> sort ds ! nat (py_round (1/2 * (real (length ds) - 1))) = 3"
proof -
  have mem: "\<lparr>bin_lo = 3/2, bin_hi = Some (5/2), samples_n = 1, p25_s = Some 3,
                   median_s = Some 3, p75_s = Some 3, p90_s = Some 3,
                   prob_exit_before_funding = None\<rparr>
      \<in> set [\<lparr>bin_lo = 3/2, bin_hi = Some (5/2), samples_n = 1, p25_s = Some 3,
                   median_s = Some 3, p75_s = Some 3, p90_s = Some 3,
                   prob_exit_before_funding = None\<rparr>,
                  \<lparr>bin_lo = 5/2, bin_hi = None, samples_n = 0, p25_s = None,
                   median_s = None, p75_s = None, p90_s = None,
                   prob_exit_before_funding = None\<rparr>]"
    by simp
  from conjunct1 [OF api_stats_bins_percentiles, rule_format, OF conjI [OF stats_scenario mem]]
  show ?thesis by auto
qed

text \<open>
  The claim as first stated calls the percentiles nearest-rank. Four crossings of the
  \<open>(1.5, 2.5)\<close> bin lasting 1, 2, 3 and 4 seconds give \<open>p25_s = 2\<close> and \<open>median_s = 3\<close>,
  while the nearest-rank values of these four durations are 1 and 2.
\<close>

theorem api_stats_bins_not_nearest_rank:
  "api_stats_bins ''BTCUSDT''
       [\<lparr>row_ts_ms = 0, row_z = Some 0, row_fr_countdown_ms = None\<rparr>,
        \<lparr>row_ts_ms = 1000, row_z = Some 2, row_fr_countdown_ms = None\<rparr>,
        \<lparr>row_ts_ms = 2000, row_z = Some 0, row_fr_countdown_ms = None\<rparr>,
        \<lparr>row_ts_ms = 3000, row_z = Some 2, row_fr_countdown_ms = None\<rparr>,
        \<lparr>row_ts_ms = 5000, row_z = Some 0, row_fr_countdown_ms = None\<rparr>,
        \<lparr>row_ts_ms = 6000, row_z = Some 2, row_fr_countdown_ms = None\<rparr>,
        \<lparr>row_ts_ms = 9000, row_z = Some 0, row_fr_countdown_ms = None\<rparr>,
        \<lparr>row_ts_ms = 10000, row_z = Some 2, row_fr_countdown_ms = None\<rparr>,
        \<lparr>row_ts_ms = 14000, row_z = Some 0, row_fr_countdown_ms = None\<rparr>]
       20000 7 (1/2) (Some [3/2, 5/2])
     = Some (Inr [\<lparr>bin_lo = 3/2, bin_hi = Some (5/2), samples_n = 4, p25_s = Some 2,
                   median_s = Some 3, p75_s = Some 3, p90_s = Some 4,
                   prob_exit_before_funding = None\<rparr>,
                  \<lparr>bin_lo = 5/2, bin_hi = None, samples_n = 0, p25_s = None,
                   median_s = None, p75_s = None, p90_s = None,
                   prob_exit_before_funding = None\<rparr>])
   \<and> walk_bin [0, 2, 0, 2, 0, 2, 0, 2, 0] [0, 1000, 2000, 3000, 5000, 6000, 9000, 10000, 14000]
       [None, None, None, None, None, None, None, None, None] (1/2) (3/2) (Some (5/2)) 1 [] []
     = Some ([1, 2, 3, 4], [])
   \<and> spec_nearest_rank [1, 2, 3, 4] (1/4) = Some 1
   \<and> spec_nearest_rank [1, 2, 3, 4] (1/2) = Some 2"
  by (simp add: api_stats_bins_def window_rows_def abs_z_series_def parse_edges_def
      bin_entry_def walk_bin.simps scan_exit.simps pct_def py_round_def spec_nearest_rank_def
      Let_def)


section \<open>Properties of the rate limiter\<close>

lemma refill_fields:
  "capacity (refill t b) = capacity b" "refill_rate (refill t b) = refill_rate b"
  "last_time (refill t b) = t" "tokens (refill t b) = tokens_at b t"
  "tokens_at b t \<le> real_of_int (capacity b)"
  by (simp_all add: refill_def tokens_at_def)

lemma wait_tokens_result:
  assumes "wait_tokens wake need b now = Some y"
  shows "need \<le> tokens (fst y) \<and> capacity (fst y) = capacity b
       \<and> refill_rate (fst y) = refill_rate b
       \<and> (tokens b \<le> real_of_int (capacity b) \<longrightarrow> tokens (fst y) \<le> real_of_int (capacity b))"
proof (rule wait_tokens.raw_induct
    [where P = "\<lambda>wake need b now y. need \<le> tokens (fst y) \<and> capacity (fst y) = capacity b
       \<and> refill_rate (fst y) = refill_rate b
       \<and> (tokens b \<le> real_of_int (capacity b) \<longrightarrow> tokens (fst y) \<le> real_of_int (capacity b))",
     OF _ assms])
  fix f :: "(real \<Rightarrow> real \<Rightarrow> real) \<Rightarrow> real \<Rightarrow> token_bucket \<Rightarrow> real \<Rightarrow> (token_bucket \<times> real) option"
    and wake need b now y
  assume IH: "\<And>wake need b now y. f wake need b now = Some y \<Longrightarrow>
       need \<le> tokens (fst y) \<and> capacity (fst y) = capacity b
       \<and> refill_rate (fst y) = refill_rate b
       \<and> (tokens b \<le> real_of_int (capacity b) \<longrightarrow> tokens (fst y) \<le> real_of_int (capacity b))"
    and eq: "(if tokens b < need
      then f wake need
             (refill (wake now (max (if refill_rate b > 0 then (need - tokens b) / refill_rate b
                                     else 1 / 20) (1 / 100))) b)
             (wake now (max (if refill_rate b > 0 then (need - tokens b) / refill_rate b
                             else 1 / 20) (1 / 100)))
      else Some (b, now)) = Some y"
  show "need \<le> tokens (fst y) \<and> capacity (fst y) = capacity b
       \<and> refill_rate (fst y) = refill_rate b
       \<and> (tokens b \<le> real_of_int (capacity b) \<longrightarrow> tokens (fst y) \<le> real_of_int (capacity b))"
  proof (cases "tokens b < need")
    case True
    define t where "t = wake now (max (if refill_rate b > 0 then (need - tokens b) / refill_rate b
                                     else 1 / 20) (1 / 100))"
    from eq True have "f wake need (refill t b) t = Some y"
      by (simp add: t_def)
    from IH [OF this] show ?thesis
      by (simp add: refill_fields)
  next
    case False
    with eq show ?thesis by auto
  qed
qed

lemma wait_tokens_now: "\<not> tokens b < need \<Longrightarrow> wait_tokens wake need b now = Some (b, now)"
  by (subst wait_tokens.simps) simp

lemma wait_tokens_returns:
  assumes rate: "0 < refill_rate b" and cap: "need \<le> real_of_int (capacity b)"
    and wake: "\<And>t d. t + d \<le> wake t d" and last: "last_time b = now"
  shows "\<exists>y. wait_tokens wake need b now = Some y"
proof (cases "tokens b < need")
  case False
  then show ?thesis by (simp add: wait_tokens_now)
next
  case True
  define d where "d = max ((need - tokens b) / refill_rate b) (1 / 100)"
  define t where "t = wake now d"
  have d: "(need - tokens b) / refill_rate b \<le> d" by (simp add: d_def)
  have "now + d \<le> t" unfolding t_def by (rule wake)
  with d have "(need - tokens b) / refill_rate b \<le> t - now" by simp
  then have "need - tokens b \<le> (t - now) * refill_rate b"
    using rate by (simp add: pos_divide_le_eq)
  then have "need \<le> tokens_at b t"
    using cap by (simp add: tokens_at_def last)
  then have stop: "\<not> tokens (refill t b) < need" by (simp add: refill_fields)
  have "wait_tokens wake need b now = wait_tokens wake need (refill t b) t"
    using True rate by (subst wait_tokens.simps) (simp add: t_def d_def)
  also have "\<dots> = Some (refill t b, t)" using stop by (rule wait_tokens_now)
  finally show ?thesis by blast
qed

lemma consume_result:
  assumes "TokenBucket_consume wake b now weight = Some (b', now')"
  shows "capacity b' = capacity b \<and> refill_rate b' = refill_rate b
       \<and> 0 \<le> tokens b' \<and> tokens b' \<le> real_of_int (capacity b) - real_of_int weight"
proof -
  from assms obtain b2 where w: "wait_tokens wake (real_of_int weight) (refill now b) now = Some (b2, now')"
    and b': "b' = b2\<lparr>tokens := tokens b2 - real_of_int weight\<rparr>"
    by (auto simp: TokenBucket_consume_def split: option.splits)
  from wait_tokens_result [OF w] show ?thesis
    by (simp add: b' refill_fields)
qed

lemma consume_now:
  assumes "real_of_int weight \<le> tokens_at b now"
  shows "TokenBucket_consume wake b now weight
           = Some (b\<lparr>last_time := now, tokens := tokens_at b now - real_of_int weight\<rparr>, now)"
proof -
  have "\<not> tokens (refill now b) < real_of_int weight" using assms by (simp add: refill_fields)
  then show ?thesis
    by (simp add: TokenBucket_consume_def wait_tokens_now) (simp add: refill_def tokens_at_def)
qed

lemma consume_returns:
  assumes "0 < refill_rate b" "weight \<le> capacity b" "\<And>t d. t + d \<le> wake t d"
  shows "\<exists>r. TokenBucket_consume wake b now weight = Some r"
proof -
  have "\<exists>y. wait_tokens wake (real_of_int weight) (refill now b) now = Some y"
    using assms by (intro wait_tokens_returns) (simp_all add: refill_fields)
  then show ?thesis by (auto simp: TokenBucket_consume_def)
qed


lemma wait_tokens_elapsed:
  assumes "wait_tokens wake need b now = Some y"
  shows "last_time b = now \<longrightarrow>
           last_time (fst y) = snd y
         \<and> tokens (fst y) \<le> tokens b + (snd y - now) * refill_rate b"
proof (rule wait_tokens.raw_induct
    [where P = "\<lambda>wake need b now y. last_time b = now \<longrightarrow>
           last_time (fst y) = snd y
         \<and> tokens (fst y) \<le> tokens b + (snd y - now) * refill_rate b",
     OF _ assms])
  fix f :: "(real \<Rightarrow> real \<Rightarrow> real) \<Rightarrow> real \<Rightarrow> token_bucket \<Rightarrow> real \<Rightarrow> (token_bucket \<times> real) option"
    and wake need b now y
  assume IH: "\<And>wake need b now y. f wake need b now = Some y \<Longrightarrow>
       last_time b = now \<longrightarrow>
           last_time (fst y) = snd y
         \<and> tokens (fst y) \<le> tokens b + (snd y - now) * refill_rate b"
    and eq: "(if tokens b < need
      then f wake need
             (refill (wake now (max (if refill_rate b > 0 then (need - tokens b) / refill_rate b
                                     else 1 / 20) (1 / 100))) b)
             (wake now (max (if refill_rate b > 0 then (need - tokens b) / refill_rate b
                             else 1 / 20) (1 / 100)))
      else Some (b, now)) = Some y"
  show "last_time b = now \<longrightarrow>
           last_time (fst y) = snd y
         \<and> tokens (fst y) \<le> tokens b + (snd y - now) * refill_rate b"
  proof (cases "tokens b < need")
    case False
    with eq show ?thesis by auto
  next
    case True
    define t where "t = wake now (max (if refill_rate b > 0 then (need - tokens b) / refill_rate b
                                     else 1 / 20) (1 / 100))"
    from eq True have "f wake need (refill t b) t = Some y"
      by (simp add: t_def)
    from IH [OF this] have
      l: "last_time (fst y) = snd y"
      and tk: "tokens (fst y) \<le> tokens_at b t + (snd y - t) * refill_rate b"
      by (simp_all add: refill_fields)
    show ?thesis
    proof
      assume last: "last_time b = now"
      have "tokens_at b t \<le> tokens b + (t - now) * refill_rate b"
        by (simp add: tokens_at_def last)
      with tk have "tokens (fst y) \<le> tokens b + (t - now) * refill_rate b
                                     + (snd y - t) * refill_rate b"
        by simp
      also have "\<dots> = tokens b + (snd y - now) * refill_rate b"
        by (simp add: algebra_simps)
      finally show "last_time (fst y) = snd y
         \<and> tokens (fst y) \<le> tokens b + (snd y - now) * refill_rate b"
        using l by simp
    qed
  qed
qed

lemma consume_elapsed:
  assumes "TokenBucket_consume wake b now weight = Some (b', now')"
  shows "last_time b' = now'
       \<and> tokens b' + real_of_int weight \<le> tokens_at b now + (now' - now) * refill_rate b"
proof -
  from assms obtain b2 where
    w: "wait_tokens wake (real_of_int weight) (refill now b) now = Some (b2, now')"
    and b': "b' = b2\<lparr>tokens := tokens b2 - real_of_int weight\<rparr>"
    by (auto simp: TokenBucket_consume_def split: option.splits)
  from wait_tokens_elapsed [OF w] show ?thesis
    by (simp add: b' refill_fields)
qed

lemma consume_one_sleep:
  assumes short: "tokens_at b now < real_of_int weight" and rate: "0 < refill_rate b"
    and cap: "weight \<le> capacity b" and wake: "\<And>t d. t + d \<le> wake t d"
  shows "TokenBucket_consume wake b now weight
           = Some (b\<lparr>last_time := wake now (sleep_needed b now weight),
                     tokens := min (real_of_int (capacity b))
                                 (tokens_at b now
                                  + (wake now (sleep_needed b now weight) - now) * refill_rate b)
                               - real_of_int weight\<rparr>,
                   wake now (sleep_needed b now weight))"
proof -
  define need where "need = real_of_int weight"
  define b1 where "b1 = refill now b"
  define t where "t = wake now (sleep_needed b now weight)"
  have b1: "tokens b1 = tokens_at b now" "last_time b1 = now" "capacity b1 = capacity b"
    "refill_rate b1 = refill_rate b"
    by (simp_all add: b1_def refill_fields)
  have d: "(need - tokens b1) / refill_rate b \<le> sleep_needed b now weight"
    by (simp add: sleep_needed_def need_def b1)
  have "now + sleep_needed b now weight \<le> t" unfolding t_def by (rule wake)
  with d have "(need - tokens b1) / refill_rate b \<le> t - now" by simp
  then have "need - tokens b1 \<le> (t - now) * refill_rate b"
    using rate by (simp add: pos_divide_le_eq)
  moreover have "need \<le> real_of_int (capacity b)" using cap by (simp add: need_def)
  ultimately have "need \<le> tokens_at b1 t"
    by (simp add: tokens_at_def b1)
  then have stop: "\<not> tokens (refill t b1) < need" by (simp add: refill_fields)
  have "wait_tokens wake need b1 now = wait_tokens wake need (refill t b1) t"
    using short rate
    by (subst wait_tokens.simps) (simp add: t_def sleep_needed_def need_def b1)
  also have "\<dots> = Some (refill t b1, t)" using stop by (rule wait_tokens_now)
  finally have w: "wait_tokens wake (real_of_int weight) (refill now b) now
      = Some (refill t b1, t)"
    by (simp add: need_def b1_def)
  show ?thesis
    unfolding TokenBucket_consume_def w t_def [symmetric]
    by (simp add: refill_def b1_def tokens_at_def)
qed

lemma consume_never:
  assumes "capacity b < weight"
  shows "TokenBucket_consume wake b now weight = None"
proof (cases "TokenBucket_consume wake b now weight")
  case None
  then show ?thesis .
next
  case (Some r)
  obtain b' now' where "r = (b', now')" by (cases r)
  with Some consume_result [of wake b now weight b' now'] assms show ?thesis by simp
qed

text \<open>
  C8. \<open>RateLimiter.allow(exchange, endpoint, weight)\<close> consumes the bucket keyed
  \<open>(exchange, endpoint)\<close> when there is one; otherwise the bucket keyed
  \<open>(exchange, "global")\<close>; otherwise it installs under that key a new full bucket of
  capacity 1000 and refill 1000 per second and consumes it; the limiter afterwards differs
  in that bucket only and its clock is the clock at which consuming returned. Consuming
  has no refusing outcome: it waits for ever or it returns. When it returns, the bucket
  keeps its capacity and rate, its last-refill time is the return time, the tokens left
  lie between 0 and the capacity less the weight, and the tokens left plus the weight are
  at most the tokens held at the call plus what the refill rate earned in the time waited:
  the weight was taken from tokens that were there. With \<open>weight\<close> tokens at hand it
  returns at once with exactly these deducted. Short of tokens, with a positive rate, a
  weight within the capacity and sleeps that last at least as long as asked, it sleeps
  once for \<open>max((weight - tokens) / rate, 0.01)\<close>, returns at the wake-up time, not before
  the missing tokens have accrued, and leaves the bucket refilled to that time less the
  weight. With a weight above the capacity it never returns.
\<close>

theorem RateLimiter_allow_spec:
  "(\<forall>b :: token_bucket. buckets s (RateLimiter_key ex ep) = Some b \<longrightarrow>
       RateLimiter_allow wake s ex ep w =
         map_option (\<lambda>(b', now'). \<lparr>buckets = (buckets s)(RateLimiter_key ex ep \<mapsto> b'), clock = now'\<rparr>)
           (TokenBucket_consume wake b (clock s) w))
   \<and> (\<forall>b :: token_bucket. buckets s (RateLimiter_key ex ep) = None
          \<and> buckets s (RateLimiter_key ex ''global'') = Some b \<longrightarrow>
       RateLimiter_allow wake s ex ep w =
         map_option (\<lambda>(b', now'). \<lparr>buckets = (buckets s)(RateLimiter_key ex ''global'' \<mapsto> b'), clock = now'\<rparr>)
           (TokenBucket_consume wake b (clock s) w))
   \<and> (buckets s (RateLimiter_key ex ep) = None
          \<and> buckets s (RateLimiter_key ex ''global'') = None \<longrightarrow>
       RateLimiter_allow wake s ex ep w =
         map_option (\<lambda>(b', now'). \<lparr>buckets = (buckets s)(RateLimiter_key ex ''global'' \<mapsto> b'), clock = now'\<rparr>)
           (TokenBucket_consume wake
              \<lparr>capacity = 1000, refill_rate = 1000, tokens = 1000, last_time = clock s\<rparr>
              (clock s) w))
   \<and> (\<forall>(b :: token_bucket) now (b' :: token_bucket) now'.
         TokenBucket_consume wake b now w = Some (b', now') \<longrightarrow>
         capacity b' = capacity b \<and> refill_rate b' = refill_rate b
       \<and> 0 \<le> tokens b' \<and> tokens b' \<le> real_of_int (capacity b) - real_of_int w
       \<and> last_time b' = now'
       \<and> tokens b' + real_of_int w \<le> tokens_at b now + (now' - now) * refill_rate b)
   \<and> (\<forall>(b :: token_bucket) now. real_of_int w \<le> tokens_at b now \<longrightarrow>
         TokenBucket_consume wake b now w
           = Some (b\<lparr>last_time := now, tokens := tokens_at b now - real_of_int w\<rparr>, now))
   \<and> (\<forall>(b :: token_bucket) now.
         tokens_at b now < real_of_int w \<and> 0 < refill_rate b \<and> w \<le> capacity b
       \<and> (\<forall>t d. t + d \<le> wake t d) \<longrightarrow>
         TokenBucket_consume wake b now w
           = Some (b\<lparr>last_time := wake now (sleep_needed b now w),
                     tokens := min (real_of_int (capacity b))
                                 (tokens_at b now
                                  + (wake now (sleep_needed b now w) - now) * refill_rate b)
                               - real_of_int w\<rparr>,
                   wake now (sleep_needed b now w))
       \<and> now + (real_of_int w - tokens_at b now) / refill_rate b
            \<le> wake now (sleep_needed b now w))
   \<and> (\<forall>(b :: token_bucket) now. 0 < refill_rate b \<and> w \<le> capacity b \<and> (\<forall>t d. t + d \<le> wake t d) \<longrightarrow>
         (\<exists>r. TokenBucket_consume wake b now w = Some r))
   \<and> (\<forall>(b :: token_bucket) now. capacity b < w \<longrightarrow> TokenBucket_consume wake b now w = None)"
proof (intro conjI allI impI)
  fix b assume "buckets s (RateLimiter_key ex ep) = Some b"
  then show "RateLimiter_allow wake s ex ep w =
         map_option (\<lambda>(b', now'). \<lparr>buckets = (buckets s)(RateLimiter_key ex ep \<mapsto> b'), clock = now'\<rparr>)
           (TokenBucket_consume wake b (clock s) w)"
    by (simp add: RateLimiter_allow_def allow_lookup_def split: option.splits)
next
  fix b assume "buckets s (RateLimiter_key ex ep) = None
          \<and> buckets s (RateLimiter_key ex ''global'') = Some b"
  then show "RateLimiter_allow wake s ex ep w =
         map_option (\<lambda>(b', now'). \<lparr>buckets = (buckets s)(RateLimiter_key ex ''global'' \<mapsto> b'), clock = now'\<rparr>)
           (TokenBucket_consume wake b (clock s) w)"
    by (simp add: RateLimiter_allow_def allow_lookup_def split: option.splits)
next
  assume "buckets s (RateLimiter_key ex ep) = None
          \<and> buckets s (RateLimiter_key ex ''global'') = None"
  then show "RateLimiter_allow wake s ex ep w =
         map_option (\<lambda>(b', now'). \<lparr>buckets = (buckets s)(RateLimiter_key ex ''global'' \<mapsto> b'), clock = now'\<rparr>)
           (TokenBucket_consume wake
              \<lparr>capacity = 1000, refill_rate = 1000, tokens = 1000, last_time = clock s\<rparr>
              (clock s) w)"
    by (simp add: RateLimiter_allow_def allow_lookup_def TokenBucket_init_def split: option.splits)
next
  fix b now b' now'
  assume c: "TokenBucket_consume wake b now w = Some (b', now')"
  from consume_result [OF c]
  show "capacity b' = capacity b" "refill_rate b' = refill_rate b" "0 \<le> tokens b'"
    "tokens b' \<le> real_of_int (capacity b) - real_of_int w"
    by simp_all
  from consume_elapsed [OF c]
  show "last_time b' = now'"
    "tokens b' + real_of_int w \<le> tokens_at b now + (now' - now) * refill_rate b"
    by simp_all
next
  fix b :: token_bucket and now assume "real_of_int w \<le> tokens_at b now"
  then show "TokenBucket_consume wake b now w
           = Some (b\<lparr>last_time := now, tokens := tokens_at b now - real_of_int w\<rparr>, now)"
    by (rule consume_now)
next
  fix b :: token_bucket and now
  assume h: "tokens_at b now < real_of_int w \<and> 0 < refill_rate b \<and> w \<le> capacity b
       \<and> (\<forall>t d. t + d \<le> wake t d)"
  then have h': "tokens_at b now < real_of_int w" "0 < refill_rate b" "w \<le> capacity b"
    "\<And>t d. t + d \<le> wake t d"
    by blast+
  show "TokenBucket_consume wake b now w
           = Some (b\<lparr>last_time := wake now (sleep_needed b now w),
                     tokens := min (real_of_int (capacity b))
                                 (tokens_at b now
                                  + (wake now (sleep_needed b now w) - now) * refill_rate b)
                               - real_of_int w\<rparr>,
                   wake now (sleep_needed b now w))"
    by (rule consume_one_sleep [OF h'])
  show "now + (real_of_int w - tokens_at b now) / refill_rate b
            \<le> wake now (sleep_needed b now w)"
    by (rule order_trans [OF _ h'(4)]) (simp add: sleep_needed_def)
next
  fix b :: token_bucket and now
  assume "0 < refill_rate b \<and> w \<le> capacity b \<and> (\<forall>t d. t + d \<le> wake t d)"
  then show "\<exists>r. TokenBucket_consume wake b now w = Some r"
    by (intro consume_returns) simp_all
next
  fix b :: token_bucket and now
  assume "capacity b < w"
  then show "TokenBucket_consume wake b now w = None"
    by (rule consume_never)
qed

theorem RateLimiter_allow_spec_witness:
  "RateLimiter_allow exact_sleep drained_limiter ''aster'' ''depth'' 1
     = Some \<lparr>buckets = [''aster:depth'' \<mapsto>
                          \<lparr>capacity = 4, refill_rate = 4, tokens = 0, last_time = 1/4\<rparr>],
             clock = 1/4\<rparr>
   \<and> RateLimiter_allow exact_sleep two_buckets ''aster'' ''depth'' 1
     = Some \<lparr>buckets = (buckets two_buckets)(''aster:global'' \<mapsto>
                          \<lparr>capacity = 20, refill_rate = 10, tokens = 19, last_time = 9\<rparr>),
             clock = 9\<rparr>
   \<and> RateLimiter_allow exact_sleep \<lparr>buckets = Map.empty, clock = 0\<rparr> ''aster'' ''depth'' 1
     = Some \<lparr>buckets = [''aster:global'' \<mapsto>
                          \<lparr>capacity = 1000, refill_rate = 1000, tokens = 999, last_time = 0\<rparr>],
             clock = 0\<rparr>"
proof -
  have sound: "\<forall>t d. t + d \<le> exact_sleep t d" by (simp add: exact_sleep_def)
  have b: "buckets drained_limiter (RateLimiter_key ''aster'' ''depth'')
      = Some \<lparr>capacity = 4, refill_rate = 4, tokens = 0, last_time = 0\<rparr>"
    by (simp add: drained_limiter_def RateLimiter_key_def)
  note T = RateLimiter_allow_spec [of drained_limiter "''aster''" "''depth''" exact_sleep 1]
  have sl: "sleep_needed \<lparr>capacity = 4, refill_rate = 4, tokens = 0, last_time = 0\<rparr> 0 1 = 1/4"
    by (simp add: sleep_needed_def tokens_at_def)
  from T sound have
    "TokenBucket_consume exact_sleep \<lparr>capacity = 4, refill_rate = 4, tokens = 0, last_time = 0\<rparr> 0 1
       = Some (\<lparr>capacity = 4, refill_rate = 4, tokens = 0, last_time = 1/4\<rparr>, 1/4)"
    by (simp add: tokens_at_def sl exact_sleep_def)
  with T b have first: "RateLimiter_allow exact_sleep drained_limiter ''aster'' ''depth'' 1
     = Some \<lparr>buckets = [''aster:depth'' \<mapsto>
                          \<lparr>capacity = 4, refill_rate = 4, tokens = 0, last_time = 1/4\<rparr>],
             clock = 1/4\<rparr>"
    by (simp add: drained_limiter_def RateLimiter_key_def)
  from RateLimiter_allow_spec [of "\<lparr>buckets = Map.empty, clock = 0\<rparr>" "''aster''" "''depth''"
      exact_sleep 1]
  have "RateLimiter_allow exact_sleep \<lparr>buckets = Map.empty, clock = 0\<rparr> ''aster'' ''depth'' 1
     = Some \<lparr>buckets = [''aster:global'' \<mapsto>
                          \<lparr>capacity = 1000, refill_rate = 1000, tokens = 999, last_time = 0\<rparr>],
             clock = 0\<rparr>"
    by (simp add: tokens_at_def RateLimiter_key_def)
  moreover
  from RateLimiter_allow_spec [of two_buckets "''aster''" "''depth''" exact_sleep 1]
  have "RateLimiter_allow exact_sleep two_buckets ''aster'' ''depth'' 1
     = Some \<lparr>buckets = (buckets two_buckets)(''aster:global'' \<mapsto>
                          \<lparr>capacity = 20, refill_rate = 10, tokens = 19, last_time = 9\<rparr>),
             clock = 9\<rparr>"
    by (simp add: tokens_at_def RateLimiter_key_def two_buckets_def)
  ultimately show ?thesis using first by simp
qed


section \<open>Properties of ingestion and fan-out\<close>

lemma first_missing_None:
  "first_missing payload ks = None \<longleftrightarrow> (\<forall>k\<in>set ks. payload k \<noteq> None)"
  by (induction ks) auto

lemma first_missing_Some:
  "first_missing payload ks = Some k \<Longrightarrow> k \<in> set ks \<and> payload k = None"
  by (induction ks) (auto split: if_splits)

lemma broadcast_loop_pushed:
  "pushed (broadcast_loop env p msg conns m)
     = pushed m @ map (\<lambda>ws. (ws, msg)) (filter (send_json env) conns)"
  by (induction conns arbitrary: m) (auto simp: ws_disconnect_def)

lemma broadcast_loop_active:
  "active (broadcast_loop env p msg conns m)
     = (active m)(p := filter (\<lambda>ws. send_json env ws \<or> ws \<notin> set conns) (active m p))"
proof (induction conns arbitrary: m)
  case Nil
  then show ?case by simp
next
  case (Cons ws conns)
  show ?case
    by (auto simp: Cons.IH ws_disconnect_def removeAll_filter_not_eq fun_eq_iff
        intro!: filter_cong)
qed

lemma broadcast_loop_all:
  "broadcast_loop env p msg (active m p) m
     = m\<lparr>pushed := pushed m @ map (\<lambda>ws. (ws, msg)) (filter (send_json env) (active m p)),
         active := (active m)(p := filter (send_json env) (active m p))\<rparr>"
proof -
  have "filter (\<lambda>ws. send_json env ws \<or> ws \<notin> set (active m p)) (active m p)
          = filter (send_json env) (active m p)"
    by (rule filter_cong) auto
  then show ?thesis
    by (intro ws_manager.equality) (simp_all add: broadcast_loop_pushed broadcast_loop_active)
qed

lemma ingest_missing:
  assumes "\<exists>k\<in>set required_columns. payload k = None"
  shows "ingest_spread env db m payload = (db, m, Inl (HTTPException 400))"
proof -
  from assms have "first_missing payload required_columns \<noteq> None"
    by (simp add: first_missing_None)
  then show ?thesis by (auto simp: ingest_spread_def)
qed

lemma http_status_400: "http_status r = 400 \<longleftrightarrow> r = Inl (HTTPException 400)"
  by (cases r rule: http_status.cases) simp_all

lemma step_not_400:
  "x \<noteq> Inl (HTTPException 400) \<Longrightarrow>
   (\<And>v. snd (snd (f v)) \<noteq> Inl (HTTPException 400)) \<Longrightarrow>
   snd (snd (case x of Inl e \<Rightarrow> (db, m, Inl e) | Inr v \<Rightarrow> f v)) \<noteq> Inl (HTTPException 400)"
  by (cases x) auto

lemma py_int_not_400: "py_int env v \<noteq> Inl (HTTPException 400)"
  by (cases v) (auto split: option.splits)

lemma py_float_not_400: "py_float env v \<noteq> Inl (HTTPException 400)"
  by (cases v) (auto split: option.splits)

lemma ws_broadcast_not_400: "ws_broadcast env m pr payload \<noteq> Inl (HTTPException 400)"
  by (cases pr) (auto simp: ws_broadcast_def)

lemma ingest_present_not_400:
  assumes "\<forall>k\<in>set required_columns. payload k \<noteq> None"
  shows "snd (snd (ingest_spread env db m payload)) \<noteq> Inl (HTTPException 400)"
proof -
  from assms have fm: "first_missing payload required_columns = None"
    by (simp add: first_missing_None)
  have last: "snd (snd (case ins of None \<Rightarrow> (db, m, Inl DriverError)
          | Some db' \<Rightarrow>
              (case ws_broadcast env m pr payload of
                 Inl e \<Rightarrow> (db', m, Inl e)
               | Inr m' \<Rightarrow> (db', m', Inr ''ok''))))
       \<noteq> Inl (HTTPException 400)" for ins :: "'a option" and pr
    using ws_broadcast_not_400 [of env m pr payload]
    by (cases ins; cases "ws_broadcast env m pr payload") auto
  show ?thesis
    unfolding ingest_spread_def fm Let_def option.case
    by (intro step_not_400 py_int_not_400 py_float_not_400 last)
qed

lemma ingest_ok:
  assumes present: "\<forall>k\<in>set required_columns. payload k \<noteq> None"
    and pair: "payload ''pair'' = Some (JStr p)"
    and conv: "py_int env (dict_get payload ''ts_ms'') = Inr ts"
      "py_float env (dict_get payload ''price_a'') = Inr pa"
      "py_float env (dict_get payload ''price_b'') = Inr pb"
      "py_float env (dict_get payload ''spread'') = Inr sp"
      "py_float env (dict_get payload ''z'') = Inr zv"
      "py_float env (dict_get payload ''mean'') = Inr mn"
      "py_float env (dict_get payload ''std'') = Inr sd"
    and store: "db_execute env db (ingest_row payload (JStr p) ts pa pb sp zv mn sd) = Some db'"
  shows "ingest_spread env db m payload
           = (db',
              m\<lparr>pushed := pushed m @ map (\<lambda>ws. (ws, payload)) (filter (send_json env) (active m p)),
                active := (active m)(p := filter (send_json env) (active m p))\<rparr>,
              Inr ''ok'')"
proof -
  from present have fm: "first_missing payload required_columns = None"
    by (simp add: first_missing_None)
  have pr: "dict_get payload ''pair'' = JStr p" using pair by (simp add: dict_get_def)
  have ex: "map (dict_get (\<lambda>c. if c \<in> set extra_columns then Some (dict_get payload c) else None))
              extra_columns = map (dict_get payload) extra_columns"
    by (rule map_cong) (simp_all add: dict_get_def)
  have ins: "insert_spread env db (JStr p) ts pa pb sp zv mn sd
               (\<lambda>c. if c \<in> set extra_columns then Some (dict_get payload c) else None) = Some db'"
    unfolding insert_spread_def ex using store by (simp add: ingest_row_def)
  show ?thesis
    by (simp add: ingest_spread_def fm pr conv ins ws_broadcast_def broadcast_loop_all)
qed

text \<open>
  C7 (as amended). \<open>POST /api/ingest/spread\<close> answers 400 exactly when one of the keys
  \<open>pair\<close>, \<open>ts_ms\<close>, \<open>price_a\<close>, \<open>price_b\<close>, \<open>spread\<close>, \<open>z\<close>, \<open>mean\<close>, \<open>std\<close> is absent from the
  payload, and then stores and pushes nothing. When all eight are present, \<open>pair\<close> is a
  string, \<open>int\<close> accepts the value of \<open>ts_ms\<close>, \<open>float\<close> accepts the values of the six
  numeric keys and the database accepts the row, it stores the row of the converted values
  and the payload's extras, then sends the whole payload to every current subscriber of
  that pair (a subscriber whose send fails is dropped), and returns the status ok, also
  when the pair has no subscribers.
\<close>

theorem ingest_spread_spec:
  "(http_status (snd (snd (ingest_spread env db m payload))) = 400
      \<longleftrightarrow> (\<exists>k\<in>set required_columns. payload k = None))
   \<and> ((\<exists>k\<in>set required_columns. payload k = None) \<longrightarrow>
        ingest_spread env db m payload = (db, m, Inl (HTTPException 400)))
   \<and> (\<forall>p ts pa pb sp zv mn sd db'.
        (\<forall>k\<in>set required_columns. payload k \<noteq> None)
      \<and> payload ''pair'' = Some (JStr p)
      \<and> py_int env (dict_get payload ''ts_ms'') = Inr ts
      \<and> py_float env (dict_get payload ''price_a'') = Inr pa
      \<and> py_float env (dict_get payload ''price_b'') = Inr pb
      \<and> py_float env (dict_get payload ''spread'') = Inr sp
      \<and> py_float env (dict_get payload ''z'') = Inr zv
      \<and> py_float env (dict_get payload ''mean'') = Inr mn
      \<and> py_float env (dict_get payload ''std'') = Inr sd
      \<and> db_execute env db (ingest_row payload (JStr p) ts pa pb sp zv mn sd) = Some db'
      \<longrightarrow>
        ingest_spread env db m payload
          = (db',
             m\<lparr>pushed := pushed m
                  @ map (\<lambda>ws. (ws, payload)) (filter (send_json env) (active m p)),
               active := (active m)(p := filter (send_json env) (active m p))\<rparr>,
             Inr ''ok'')
      \<and> (active m p = [] \<longrightarrow> ingest_spread env db m payload = (db', m, Inr ''ok'')))"
proof (intro conjI allI impI)
  show "http_status (snd (snd (ingest_spread env db m payload))) = 400
      \<longleftrightarrow> (\<exists>k\<in>set required_columns. payload k = None)"
  proof (cases "\<exists>k\<in>set required_columns. payload k = None")
    case True
    then show ?thesis by (simp add: ingest_missing)
  next
    case False
    then have "\<forall>k\<in>set required_columns. payload k \<noteq> None" by simp
    from ingest_present_not_400 [OF this, of env db m] False show ?thesis
      by (simp only: http_status_400)
  qed
next
  assume "\<exists>k\<in>set required_columns. payload k = None"
  then show "ingest_spread env db m payload = (db, m, Inl (HTTPException 400))"
    by (rule ingest_missing)
next
  fix p ts pa pb sp zv mn sd db'
  assume h: "(\<forall>k\<in>set required_columns. payload k \<noteq> None)
      \<and> payload ''pair'' = Some (JStr p)
      \<and> py_int env (dict_get payload ''ts_ms'') = Inr ts
      \<and> py_float env (dict_get payload ''price_a'') = Inr pa
      \<and> py_float env (dict_get payload ''price_b'') = Inr pb
      \<and> py_float env (dict_get payload ''spread'') = Inr sp
      \<and> py_float env (dict_get payload ''z'') = Inr zv
      \<and> py_float env (dict_get payload ''mean'') = Inr mn
      \<and> py_float env (dict_get payload ''std'') = Inr sd
      \<and> db_execute env db (ingest_row payload (JStr p) ts pa pb sp zv mn sd) = Some db'"
  then have h1: "\<forall>k\<in>set required_columns. payload k \<noteq> None"
    and h2: "payload ''pair'' = Some (JStr p)"
    and h3: "py_int env (dict_get payload ''ts_ms'') = Inr ts"
    and h4: "py_float env (dict_get payload ''price_a'') = Inr pa"
    and h5: "py_float env (dict_get payload ''price_b'') = Inr pb"
    and h6: "py_float env (dict_get payload ''spread'') = Inr sp"
    and h7: "py_float env (dict_get payload ''z'') = Inr zv"
    and h8: "py_float env (dict_get payload ''mean'') = Inr mn"
    and h9: "py_float env (dict_get payload ''std'') = Inr sd"
    and h10: "db_execute env db (ingest_row payload (JStr p) ts pa pb sp zv mn sd) = Some db'"
    by blast+
  have ok: "ingest_spread env db m payload
          = (db',
             m\<lparr>pushed := pushed m
                  @ map (\<lambda>ws. (ws, payload)) (filter (send_json env) (active m p)),
               active := (active m)(p := filter (send_json env) (active m p))\<rparr>,
             Inr ''ok'')"
    by (rule ingest_ok [OF h1 h2 h3 h4 h5 h6 h7 h8 h9 h10])
  then show "ingest_spread env db m payload
          = (db',
             m\<lparr>pushed := pushed m
                  @ map (\<lambda>ws. (ws, payload)) (filter (send_json env) (active m p)),
               active := (active m)(p := filter (send_json env) (active m p))\<rparr>,
             Inr ''ok'')" .
  show "ingest_spread env db m payload = (db', m, Inr ''ok'')" if "active m p = []"
  proof -
    have "(active m)(p := []) = active m" using that by (simp add: fun_eq_iff)
    then show ?thesis by (simp add: ok that)
  qed
qed

lemma sample_payload_present:
  "first_missing (sample_payload ts) required_columns = None"
  by (simp add: sample_payload_def required_columns_def)

theorem ingest_spread_spec_witness:
  "ingest_spread list_env [] two_subscribers (sample_payload (JInt 1700000000000))
     = ([ingest_row (sample_payload (JInt 1700000000000)) (JStr ''BTCUSDT'') 1700000000000
           100 (199/2) (1/2) 2 (3/10) (1/10)],
        two_subscribers\<lparr>pushed := [(1, sample_payload (JInt 1700000000000)),
                                    (2, sample_payload (JInt 1700000000000))]\<rparr>,
        Inr ''ok'')
   \<and> ingest_spread list_env [] no_subscribers (sample_payload (JInt 1700000000000))
     = ([ingest_row (sample_payload (JInt 1700000000000)) (JStr ''BTCUSDT'') 1700000000000
           100 (199/2) (1/2) 2 (3/10) (1/10)],
        no_subscribers, Inr ''ok'')"
proof -
  have pres: "\<forall>k\<in>set required_columns. sample_payload (JInt 1700000000000) k \<noteq> None"
    using sample_payload_present [of "JInt 1700000000000"] by (simp add: first_missing_None)
  have vals: "sample_payload (JInt 1700000000000) ''pair'' = Some (JStr ''BTCUSDT'')"
    "py_int list_env (dict_get (sample_payload (JInt 1700000000000)) ''ts_ms'') = Inr 1700000000000"
    "py_float list_env (dict_get (sample_payload (JInt 1700000000000)) ''price_a'') = Inr 100"
    "py_float list_env (dict_get (sample_payload (JInt 1700000000000)) ''price_b'') = Inr (199/2)"
    "py_float list_env (dict_get (sample_payload (JInt 1700000000000)) ''spread'') = Inr (1/2)"
    "py_float list_env (dict_get (sample_payload (JInt 1700000000000)) ''z'') = Inr 2"
    "py_float list_env (dict_get (sample_payload (JInt 1700000000000)) ''mean'') = Inr (3/10)"
    "py_float list_env (dict_get (sample_payload (JInt 1700000000000)) ''std'') = Inr (1/10)"
    by (simp_all add: sample_payload_def dict_get_def)
  have ex: "db_execute list_env [] r = Some [r]" for r
    by (simp add: list_env_def)
  have a2: "two_subscribers\<lparr>pushed := pushed two_subscribers
                  @ map (\<lambda>ws. (ws, sample_payload (JInt 1700000000000)))
                      (filter (send_json list_env) (active two_subscribers ''BTCUSDT'')),
               active := (active two_subscribers)(''BTCUSDT'' := filter (send_json list_env)
                      (active two_subscribers ''BTCUSDT''))\<rparr>
         = two_subscribers\<lparr>pushed := [(1, sample_payload (JInt 1700000000000)),
                                    (2, sample_payload (JInt 1700000000000))]\<rparr>"
    by (simp add: two_subscribers_def list_env_def fun_eq_iff)
  note T = ingest_spread_spec [where env = list_env and db = "[]"
      and payload = "sample_payload (JInt 1700000000000)", THEN conjunct2, THEN conjunct2,
      rule_format, OF conjI [OF pres conjI [OF vals(1) conjI [OF vals(2) conjI [OF vals(3)
        conjI [OF vals(4) conjI [OF vals(5) conjI [OF vals(6) conjI [OF vals(7)
        conjI [OF vals(8) ex]]]]]]]]]]
  have "active no_subscribers ''BTCUSDT'' = []" by (simp add: no_subscribers_def)
  with T [of no_subscribers, THEN conjunct2] T [of two_subscribers, THEN conjunct1] a2
  show ?thesis by simp
qed

text \<open>
  The claim as first stated has every payload with the eight keys persisted, broadcast
  and answered with ok. A payload that carries all eight keys with \<open>ts_ms\<close> null makes
  \<open>int\<close> raise: nothing is stored, nothing is pushed, and the status is 500.
\<close>

theorem ingest_spread_null_ts:
  "first_missing (sample_payload JNull) required_columns = None
   \<and> ingest_spread list_env [] two_subscribers (sample_payload JNull)
       = ([], two_subscribers, Inl TypeError)
   \<and> http_status (Inl TypeError) = 500"
  by (simp add: sample_payload_present)
     (simp add: ingest_spread_def sample_payload_present, simp add: sample_payload_def dict_get_def)


section \<open>Properties of the rate limiter configuration\<close>






lemma exchange_entries_not_dict: "\<not> is_dict cfg \<Longrightarrow> exchange_entries (exch, cfg) = []"
  by (cases cfg) (simp_all add: exchange_entries_def is_dict_def)











end
